theory Spec2Isabelle
  imports Complex_Main "HOL-Library.AList" "HOL-Library.Log_Nat" "HOL-Library.Option_ord"
begin

unbundle bit_operations_syntax

section \<open>SLIP framing (src/mdp/slip.js)\<close>

text \<open>
  JavaScript byte arrays (\<open>number[]\<close>) are lists of integers.  A \<open>Buffer\<close> is a list of
  integers as well; \<open>Buffer.from\<close> stores every integer modulo 256.
\<close>

abbreviation SLIP_END :: int where "SLIP_END \<equiv> 0xC0"
abbreviation SLIP_ESC :: int where "SLIP_ESC \<equiv> 0xDB"
abbreviation SLIP_ESC_END :: int where "SLIP_ESC_END \<equiv> 0xDC"
abbreviation SLIP_ESC_ESC :: int where "SLIP_ESC_ESC \<equiv> 0xDD"

definition Buffer_from :: "int list \<Rightarrow> int list" where
  "Buffer_from xs = map (\<lambda>b. b mod 256) xs"

text \<open>The body of the \<open>for (const byte of data)\<close> loop of \<open>encode\<close>: what is pushed for each byte.\<close>

fun encode_loop :: "int list \<Rightarrow> int list" where
  "encode_loop [] = []"
| "encode_loop (byte # data) =
     (if byte = SLIP_END then [SLIP_ESC, SLIP_ESC_END]
      else if byte = SLIP_ESC then [SLIP_ESC, SLIP_ESC_ESC]
      else [byte]) @ encode_loop data"

definition encode :: "int list \<Rightarrow> int list" where
  "encode data = Buffer_from ([SLIP_END] @ encode_loop data @ [SLIP_END])"

text \<open>The loop of \<open>decode\<close>; the first argument is the flag \<open>escaping\<close>.\<close>

fun decode_loop :: "bool \<Rightarrow> int list \<Rightarrow> int list" where
  "decode_loop escaping [] = []"
| "decode_loop escaping (byte # buffer) =
     (if escaping then
        (if byte = SLIP_ESC_END then SLIP_END
         else if byte = SLIP_ESC_ESC then SLIP_ESC
         else byte) # decode_loop False buffer
      else if byte = SLIP_END then decode_loop False buffer
      else if byte = SLIP_ESC then decode_loop True buffer
      else byte # decode_loop False buffer)"

definition decode :: "int list \<Rightarrow> int list" where
  "decode buffer = decode_loop False buffer"


section \<open>JavaScript numbers\<close>

text \<open>
  A finite JavaScript number is a real number that happens to be a binary64 value; integers
  are written as \<open>int\<close> where the code only ever holds integers.  \<open>Math.round\<close> rounds to the
  nearest integer, ties towards \<open>+\<infinity>\<close>; \<open>Math.ceil\<close> is the ceiling.  The operator \<open>/\<close> is
  IEEE-754 division: the exact quotient rounded to the nearest binary64 value, ties to even
  (\<open>to_double\<close>, for the normal range: 53 significant bits, no overflow or underflow, which
  the quotients of this program never reach).  Division by zero is written out where the
  code can divide by zero.
\<close>

definition Math_round :: "real \<Rightarrow> int" where
  "Math_round x = \<lfloor>x + 1 / 2\<rfloor>"

definition round_ties_even :: "real \<Rightarrow> int" where
  "round_ties_even x =
     (let f = \<lfloor>x\<rfloor>; d = x - of_int f
      in if d < 1 / 2 then f else if 1 / 2 < d then f + 1 else if even f then f else f + 1)"

text \<open>\<open>ilog2 x\<close> is the binary exponent of \<open>x > 0\<close>: the \<open>e\<close> with \<open>2^e \<le> x < 2^(e+1)\<close>.\<close>

definition ilog2 :: "real \<Rightarrow> int" where
  "ilog2 x = (if 1 \<le> x then int (floorlog 2 (nat \<lfloor>x\<rfloor>)) - 1
              else - int (floorlog 2 (nat (\<lceil>1 / x\<rceil> - 1))))"

definition to_double :: "real \<Rightarrow> real" where
  "to_double x =
     (if x = 0 then 0
      else let e = ilog2 \<bar>x\<bar> - 52
           in sgn x * of_int (round_ties_even (\<bar>x\<bar> / 2 powi e)) * 2 powi e)"

definition js_div :: "real \<Rightarrow> real \<Rightarrow> real" where
  "js_div a b = to_double (a / b)"

section \<open>MDP commands (src/mdp/commands.js)\<close>

datatype error =
    Invalid_address int
  | No_light_addresses string
  | Unknown_broadcast_command string
  | Stack_overflow
  | Send_error

abbreviation ON :: int where "ON \<equiv> 0x20"
abbreviation OFF :: int where "OFF \<equiv> 0x21"
abbreviation LEVEL :: int where "LEVEL \<equiv> 0x22"
abbreviation FADE :: int where "FADE \<equiv> 0x23"
abbreviation RGB_LEVEL :: int where "RGB_LEVEL \<equiv> 0x2C"
abbreviation FLASH :: int where "FLASH \<equiv> 0x2E"
abbreviation RGB_FADE :: int where "RGB_FADE \<equiv> 0x31"
abbreviation BROADCAST_ADDRESS :: int where "BROADCAST_ADDRESS \<equiv> 0xFFFF"

text \<open>\<open>addressToBytes\<close> throws on an address outside 0..65535; the throw is the \<open>Inl\<close> result.\<close>

definition addressToBytes :: "int \<Rightarrow> error + int list" where
  "addressToBytes address =
     (if address < 0 \<or> address > 0xFFFF then Inl (Invalid_address address)
      else Inr [drop_bit 8 address AND 0xFF, address AND 0xFF])"

definition buildOnCommand :: "int \<Rightarrow> error + int list" where
  "buildOnCommand address =
     (case addressToBytes address of Inl e \<Rightarrow> Inl e | Inr ab \<Rightarrow> Inr (ab @ [ON]))"

definition buildOffCommand :: "int \<Rightarrow> error + int list" where
  "buildOffCommand address =
     (case addressToBytes address of Inl e \<Rightarrow> Inl e | Inr ab \<Rightarrow> Inr (ab @ [OFF]))"

definition buildLevelCommand :: "int \<Rightarrow> real \<Rightarrow> error + int list" where
  "buildLevelCommand address level =
     (let clampedLevel = max 0 (min 255 (Math_round level))
      in case addressToBytes address of Inl e \<Rightarrow> Inl e
         | Inr ab \<Rightarrow> Inr (ab @ [LEVEL, clampedLevel]))"

definition buildFadeCommand :: "int \<Rightarrow> real \<Rightarrow> real \<Rightarrow> real \<Rightarrow> error + int list" where
  "buildFadeCommand address level interval step =
     (let clampedLevel = max 0 (min 255 (Math_round level));
          clampedInterval = max 1 (min 255 (Math_round interval));
          clampedStep = max 1 (min 127 (Math_round step))
      in case addressToBytes address of Inl e \<Rightarrow> Inl e
         | Inr ab \<Rightarrow> Inr (ab @ [FADE, clampedLevel, clampedInterval, clampedStep]))"

definition buildRgbLevelCommand :: "int \<Rightarrow> real \<Rightarrow> real \<Rightarrow> real \<Rightarrow> error + int list" where
  "buildRgbLevelCommand address red green blue =
     (case addressToBytes address of Inl e \<Rightarrow> Inl e
      | Inr ab \<Rightarrow> Inr (ab @
          [RGB_LEVEL,
           max 0 (min 255 (Math_round red)),
           max 0 (min 255 (Math_round green)),
           max 0 (min 255 (Math_round blue))]))"

text \<open>The local helper \<open>clamp\<close> of \<open>buildRgbFadeCommand\<close> and \<open>buildFlashCommand\<close>.\<close>

definition clamp :: "real \<Rightarrow> int \<Rightarrow> int \<Rightarrow> int" where
  "clamp val mn mx = max mn (min mx (Math_round val))"

record channel =
  ch_level :: real
  ch_interval :: real
  ch_step :: real

definition buildRgbFadeCommand :: "int \<Rightarrow> channel \<Rightarrow> channel \<Rightarrow> channel \<Rightarrow> error + int list" where
  "buildRgbFadeCommand address red green blue =
     (case addressToBytes address of Inl e \<Rightarrow> Inl e
      | Inr ab \<Rightarrow> Inr (ab @
          [RGB_FADE,
           clamp (ch_level red) 0 255, clamp (ch_interval red) 1 255, clamp (ch_step red) 1 127,
           clamp (ch_level green) 0 255, clamp (ch_interval green) 1 255, clamp (ch_step green) 1 127,
           clamp (ch_level blue) 0 255, clamp (ch_interval blue) 1 255, clamp (ch_step blue) 1 127]))"

definition buildFlashCommand ::
  "int \<Rightarrow> real \<Rightarrow> real \<Rightarrow> real \<Rightarrow> real \<Rightarrow> real \<Rightarrow> error + int list" where
  "buildFlashCommand address levelA levelB flashSteps intervalA intervalB =
     (let steps = clamp flashSteps 2 65535;
          intA = clamp intervalA 1 65535;
          intB = clamp intervalB 1 65535
      in case addressToBytes address of Inl e \<Rightarrow> Inl e
         | Inr ab \<Rightarrow> Inr (ab @
            [FLASH,
             drop_bit 8 steps AND 0xFF, steps AND 0xFF,
             drop_bit 8 intA AND 0xFF, intA AND 0xFF,
             drop_bit 8 intB AND 0xFF, intB AND 0xFF,
             clamp levelA 0 255, clamp levelB 0 255]))"

section \<open>MDP protocol engine (src/mdp/protocol.js)\<close>

definition calculateChecksum :: "int list \<Rightarrow> int" where
  "calculateChecksum data = fold (\<lambda>byte checksum. checksum XOR byte) data 0 AND 0xFF"

definition buildPacket :: "int list \<Rightarrow> int list" where
  "buildPacket commandBytes =
     (let checksum = calculateChecksum commandBytes;
          withChecksum = commandBytes @ [checksum]
      in encode withChecksum)"

definition packetOn :: "int \<Rightarrow> error + int list" where
  "packetOn address = map_sum id buildPacket (buildOnCommand address)"

definition packetOff :: "int \<Rightarrow> error + int list" where
  "packetOff address = map_sum id buildPacket (buildOffCommand address)"

definition packetLevel :: "int \<Rightarrow> real \<Rightarrow> error + int list" where
  "packetLevel address level = map_sum id buildPacket (buildLevelCommand address level)"

definition packetFade :: "int \<Rightarrow> real \<Rightarrow> real \<Rightarrow> real \<Rightarrow> error + int list" where
  "packetFade address level interval step =
     map_sum id buildPacket (buildFadeCommand address level interval step)"

definition packetRgbLevel :: "int \<Rightarrow> real \<Rightarrow> real \<Rightarrow> real \<Rightarrow> error + int list" where
  "packetRgbLevel address red green blue =
     map_sum id buildPacket (buildRgbLevelCommand address red green blue)"

text \<open>
  The argument of \<open>packetRgbFade\<close>: per channel an object whose properties may be absent; the
  spread \<open>{ ...defaults, ...config.red }\<close> fills an absent property from \<open>defaults\<close>.
\<close>

record channel_config =
  cfg_level :: "real option"
  cfg_interval :: "real option"
  cfg_step :: "real option"

definition with_defaults :: "channel_config \<Rightarrow> channel" where
  "with_defaults c =
     \<lparr>ch_level = (case cfg_level c of None \<Rightarrow> 0 | Some v \<Rightarrow> v),
      ch_interval = (case cfg_interval c of None \<Rightarrow> 2 | Some v \<Rightarrow> v),
      ch_step = (case cfg_step c of None \<Rightarrow> 5 | Some v \<Rightarrow> v)\<rparr>"

definition packetRgbFade ::
  "int \<Rightarrow> channel_config \<Rightarrow> channel_config \<Rightarrow> channel_config \<Rightarrow> error + int list" where
  "packetRgbFade address red green blue =
     map_sum id buildPacket
       (buildRgbFadeCommand address (with_defaults red) (with_defaults green) (with_defaults blue))"

record fade_params =
  fp_interval :: int
  fp_step :: int

text \<open>
  \<open>calculateFadeParams\<close>.  When \<open>fadeTime100ths\<close> is 0 the quotient \<open>levelDiff / fadeTime100ths\<close>
  is \<open>Infinity\<close> in JavaScript and \<open>Math.min(maxStep, Infinity)\<close> is \<open>maxStep\<close>.
\<close>

definition calculateFadeParams :: "int \<Rightarrow> int \<Rightarrow> int \<Rightarrow> fade_params" where
  "calculateFadeParams currentLevel targetLevel fadeTimeMs =
     (let levelDiff = \<bar>targetLevel - currentLevel\<bar>
      in if levelDiff = 0 then \<lparr>fp_interval = 1, fp_step = 1\<rparr>
         else
           let minInterval = 1; maxInterval = 255; maxStep = 127;
               fadeTime100ths = js_div (of_int fadeTimeMs) 10;
               interval0 = Math_round (js_div fadeTime100ths (of_int levelDiff));
               (interval, step) =
                 (if interval0 > maxInterval then (maxInterval, 1)
                  else if interval0 < minInterval then
                    (minInterval,
                     if fadeTime100ths = 0 then maxStep
                     else min maxStep \<lceil>js_div (of_int levelDiff) fadeTime100ths\<rceil>)
                  else (interval0, 1))
           in \<lparr>fp_interval = max minInterval (min maxInterval interval),
               fp_step = max 1 (min maxStep step)\<rparr>)"

text \<open>
  \<open>packetRgbFadeToColor\<close>; the last parameter is \<open>currentColor\<close>, whose default is
  \<open>{ r: 0, g: 0, b: 0 }\<close>.
\<close>

definition packetRgbFadeToColor ::
  "int \<Rightarrow> int \<Rightarrow> int \<Rightarrow> int \<Rightarrow> int \<Rightarrow> (int \<times> int \<times> int) option \<Rightarrow> error + int list" where
  "packetRgbFadeToColor address red green blue fadeTimeMs currentColor =
     (let (cr, cg, cb) = (case currentColor of None \<Rightarrow> (0, 0, 0) | Some c \<Rightarrow> c);
          redParams = calculateFadeParams cr red fadeTimeMs;
          greenParams = calculateFadeParams cg green fadeTimeMs;
          blueParams = calculateFadeParams cb blue fadeTimeMs;
          cfg = (\<lambda>lv p. \<lparr>cfg_level = Some (of_int lv),
                          cfg_interval = Some (of_int (fp_interval p)),
                          cfg_step = Some (of_int (fp_step p))\<rparr>)
      in packetRgbFade address (cfg red redParams) (cfg green greenParams) (cfg blue blueParams))"

definition packetBroadcast :: "string \<Rightarrow> real \<Rightarrow> error + int list" where
  "packetBroadcast commandType level =
     (if commandType = ''on'' then packetOn BROADCAST_ADDRESS
      else if commandType = ''off'' then packetOff BROADCAST_ADDRESS
      else if commandType = ''level'' then packetLevel BROADCAST_ADDRESS level
      else Inl (Unknown_broadcast_command commandType))"

section \<open>Simulator (src/simulator/index.js)\<close>

text \<open>
  The rows that \<open>database.apartments.getAll()\<close> and \<open>database.amenities.getAll()\<close> return, with
  the columns the program reads.  \<open>lightswarm_address\<close> of an apartment may be NULL.
\<close>

record apartment =
  apt_id :: string
  apt_name :: string
  apt_lightswarm_address :: "int option"
  apt_tower_id :: string
  apt_floor :: int
  apt_floorplate_id :: "string option"
  apt_current_state :: "string option"
  apt_unit_position :: "int option"

record amenity =
  am_id :: string
  am_name :: string
  am_lightswarm_address :: int
  am_tower_id :: "string option"
  am_floor :: "int option"
  am_amenity_type :: string

record light_state =
  st_on :: bool
  st_level :: int
  st_r :: int
  st_g :: int
  st_b :: int

record light =
  light_id :: string
  light_type :: string
  light_name :: string
  light_address :: "int option"
  light_floor :: "int option"
  light_tower :: "string option"
  light_amenityType :: "string option"
  light_state :: light_state
  lastUpdated :: "string option"

text \<open>
  \<open>this.lights\<close> is a JavaScript \<open>Map\<close>: an association list in insertion order, where \<open>set\<close>
  on a present key replaces the value in place (\<open>AList.update\<close>).
\<close>

type_synonym lights = "(int option \<times> light) list"

record simulator =
  lights :: lights
  enabled :: bool

definition all_off :: light_state where
  "all_off = \<lparr>st_on = False, st_level = 0, st_r = 0, st_g = 0, st_b = 0\<rparr>"

definition setEnabled :: "bool \<Rightarrow> simulator \<Rightarrow> simulator" where
  "setEnabled e sim = sim\<lparr>enabled := e\<rparr>"

definition apartment_light :: "apartment \<Rightarrow> light" where
  "apartment_light apt =
     \<lparr>light_id = apt_id apt, light_type = ''apartment'', light_name = apt_name apt,
      light_address = apt_lightswarm_address apt, light_floor = Some (apt_floor apt),
      light_tower = Some (apt_tower_id apt), light_amenityType = None,
      light_state = all_off, lastUpdated = None\<rparr>"

definition amenity_light :: "amenity \<Rightarrow> light" where
  "amenity_light a =
     \<lparr>light_id = am_id a, light_type = ''amenity'', light_name = am_name a,
      light_address = Some (am_lightswarm_address a), light_floor = am_floor a,
      light_tower = None, light_amenityType = Some (am_amenity_type a),
      light_state = all_off, lastUpdated = None\<rparr>"

text \<open>
  \<open>initializeFromDatabase\<close>; the first two arguments are the results of the two \<open>getAll()\<close>
  queries.
\<close>

definition initializeFromDatabase :: "apartment list \<Rightarrow> amenity list \<Rightarrow> simulator \<Rightarrow> simulator" where
  "initializeFromDatabase apartments amenities sim =
     (let l1 = fold (\<lambda>apt ls. AList.update (apt_lightswarm_address apt) (apartment_light apt) ls)
                 apartments (lights sim);
          l2 = fold (\<lambda>a ls. AList.update (Some (am_lightswarm_address a)) (amenity_light a) ls)
                 amenities l1
      in sim\<lparr>lights := l2\<rparr>)"

datatype change =
    Change_ON
  | Change_OFF
  | Change_LEVEL int
  | Change_FADE int "int option" "int option"
  | Change_RGB_LEVEL int int int
  | Change_RGB_FADE int int int
  | Change_UNKNOWN int

datatype sim_result =
    Address_not_found "int option"
  | Light_updated "int option" light change
  | Broadcast_done int nat

text \<open>\<open>data[i] || 0\<close>: an absent element is \<open>undefined\<close>, which is falsy.\<close>

definition data_or_0 :: "int list \<Rightarrow> nat \<Rightarrow> int" where
  "data_or_0 data i = (if i < length data then data ! i else 0)"

definition data_at :: "int list \<Rightarrow> nat \<Rightarrow> int option" where
  "data_at data i = (if i < length data then Some (data ! i) else None)"

text \<open>The \<open>switch (command)\<close> of \<open>executeCommand\<close>: the new state of the light and the change.\<close>

definition switch_command :: "int \<Rightarrow> int list \<Rightarrow> light_state \<Rightarrow> light_state \<times> change" where
  "switch_command command data st =
     (if command = 0x20 then
        (\<lparr>st_on = True, st_level = 255, st_r = 255, st_g = 255, st_b = 255\<rparr>, Change_ON)
      else if command = 0x21 then
        (\<lparr>st_on = False, st_level = 0, st_r = 0, st_g = 0, st_b = 0\<rparr>, Change_OFF)
      else if command = 0x22 then
        (let level = data_or_0 data 0
         in (\<lparr>st_on = (level > 0), st_level = level, st_r = level, st_g = level, st_b = level\<rparr>,
             Change_LEVEL level))
      else if command = 0x23 then
        (let fadeLevel = data_or_0 data 0
         in (\<lparr>st_on = (fadeLevel > 0), st_level = fadeLevel,
              st_r = fadeLevel, st_g = fadeLevel, st_b = fadeLevel\<rparr>,
             Change_FADE fadeLevel (data_at data 1) (data_at data 2)))
      else if command = 0x2C then
        (let r = data_or_0 data 0; g = data_or_0 data 1; b = data_or_0 data 2
         in (\<lparr>st_on = (r > 0 \<or> g > 0 \<or> b > 0), st_level = max r (max g b),
              st_r = r, st_g = g, st_b = b\<rparr>,
             Change_RGB_LEVEL r g b))
      else if command = 0x31 then
        (let rFade = data_or_0 data 0; gFade = data_or_0 data 3; bFade = data_or_0 data 6
         in (\<lparr>st_on = (rFade > 0 \<or> gFade > 0 \<or> bFade > 0), st_level = max rFade (max gFade bFade),
              st_r = rFade, st_g = gFade, st_b = bFade\<rparr>,
             Change_RGB_FADE rFade gFade bFade))
      else (st, Change_UNKNOWN command))"

text \<open>\<open>executeCommand\<close> for an address other than 0xFFFF; \<open>now\<close> is the current time stamp.\<close>

definition executeSingle ::
  "int option \<Rightarrow> int \<Rightarrow> int list \<Rightarrow> string \<Rightarrow> lights \<Rightarrow> sim_result \<times> lights" where
  "executeSingle address command data now ls =
     (case map_of ls address of
        None \<Rightarrow> (Address_not_found address, ls)
      | Some light \<Rightarrow>
          (let (st, change) = switch_command command data (light_state light);
               light' = light\<lparr>light_state := st, lastUpdated := Some now\<rparr>
           in (Light_updated address light' change, AList.update address light' ls)))"

text \<open>
  The loop of \<open>executeBroadcast\<close> over the keys of the map, counting the results.  It calls
  \<open>executeCommand\<close> for every key; for a key equal to 0xFFFF that call is again a broadcast,
  which recurses without end until the call stack overflows (a \<open>RangeError\<close>).
\<close>

fun executeBroadcast_loop ::
  "int option list \<Rightarrow> int \<Rightarrow> int list \<Rightarrow> string \<Rightarrow> nat \<Rightarrow> lights \<Rightarrow> (error + nat) \<times> lights" where
  "executeBroadcast_loop [] command data now n ls = (Inr n, ls)"
| "executeBroadcast_loop (address # rest) command data now n ls =
     (if address = Some 0xFFFF then (Inl Stack_overflow, ls)
      else case executeSingle address command data now ls of
             (Address_not_found _, ls') \<Rightarrow> executeBroadcast_loop rest command data now n ls'
           | (_, ls') \<Rightarrow> executeBroadcast_loop rest command data now (Suc n) ls')"

definition executeBroadcast ::
  "int \<Rightarrow> int list \<Rightarrow> string \<Rightarrow> lights \<Rightarrow> (error + sim_result) \<times> lights" where
  "executeBroadcast command data now ls =
     (case executeBroadcast_loop (map fst ls) command data now 0 ls of
        (Inl e, ls') \<Rightarrow> (Inl e, ls')
      | (Inr n, ls') \<Rightarrow> (Inr (Broadcast_done command n), ls'))"

definition executeCommand ::
  "int option \<Rightarrow> int \<Rightarrow> int list \<Rightarrow> string \<Rightarrow> lights \<Rightarrow> (error + sim_result) \<times> lights" where
  "executeCommand address command data now ls =
     (if address = Some 0xFFFF then executeBroadcast command data now ls
      else case executeSingle address command data now ls of (r, ls') \<Rightarrow> (Inr r, ls'))"

text \<open>
  The parsing part of \<open>processPacket\<close>: strip a leading and a trailing 0xC0, drop the last
  byte (the checksum), and split what is left into address, command and data.
\<close>

definition processPacket_parse :: "int list \<Rightarrow> (int \<times> int \<times> int list) option" where
  "processPacket_parse packet =
     (let bytes = packet;
          bytes = (case bytes of b # rest \<Rightarrow> if b = 0xC0 then rest else bytes | [] \<Rightarrow> bytes);
          bytes = (if bytes \<noteq> [] \<and> last bytes = 0xC0 then butlast bytes else bytes);
          bytes = (if length bytes > 0 then butlast bytes else bytes)
      in if length bytes < 3 then None
         else Some (push_bit 8 (bytes ! 0) OR bytes ! 1, bytes ! 2, drop 3 bytes))"

definition processPacket ::
  "int list \<Rightarrow> string \<Rightarrow> simulator \<Rightarrow> (error + sim_result option) \<times> simulator" where
  "processPacket packet now sim =
     (if \<not> enabled sim then (Inr None, sim)
      else case processPacket_parse packet of
             None \<Rightarrow> (Inr None, sim)
           | Some (address, command, data) \<Rightarrow>
               (case executeCommand (Some address) command data now (lights sim) of
                  (r, ls') \<Rightarrow> (map_sum id Some r, sim\<lparr>lights := ls'\<rparr>)))"

definition resetAll :: "string \<Rightarrow> simulator \<Rightarrow> simulator" where
  "resetAll now sim =
     sim\<lparr>lights := map (\<lambda>(address, light).
                           (address, light\<lparr>light_state := all_off, lastUpdated := Some now\<rparr>))
                        (lights sim)\<rparr>"

text \<open>The states the simulator can reach from its constructor through its methods.\<close>

inductive reachable :: "simulator \<Rightarrow> bool" where
  constructed: "reachable \<lparr>lights = [], enabled = False\<rparr>"
| after_setEnabled: "reachable sim \<Longrightarrow> reachable (setEnabled e sim)"
| after_initialize: "reachable sim \<Longrightarrow> reachable (initializeFromDatabase apartments amenities sim)"
| after_processPacket: "reachable sim \<Longrightarrow> reachable (snd (processPacket packet now sim))"
| after_executeCommand:
    "reachable sim \<Longrightarrow> reachable (sim\<lparr>lights := snd (executeCommand address command data now (lights sim))\<rparr>)"
| after_resetAll: "reachable sim \<Longrightarrow> reachable (resetAll now sim)"

text \<open>The invariant of a fixture: \<open>level\<close> is the largest channel and \<open>on\<close> says that it is positive.\<close>

definition light_ok :: "light \<Rightarrow> bool" where
  "light_ok l \<longleftrightarrow>
     st_level (light_state l) = max (st_r (light_state l)) (max (st_g (light_state l)) (st_b (light_state l)))
     \<and> st_on (light_state l) = (st_level (light_state l) > 0)"

definition table_ok :: "lights \<Rightarrow> bool" where
  "table_ok ls \<longleftrightarrow> (\<forall>(address, l) \<in> set ls. light_ok l)"

text \<open>
  The decoder of the specification, sections 4.1 and 4.2, written from the specification
  for comparison with \<open>processPacket_parse\<close>: SLIP unescaping, then dropping the trailing
  checksum byte without verifying it, then address (big-endian), opcode and payload.
\<close>

definition spec_decode_frame :: "int list \<Rightarrow> (int \<times> int \<times> int list) option" where
  "spec_decode_frame packet =
     (let bytes = butlast (decode packet)
      in if length bytes < 3 then None
         else Some (256 * (bytes ! 0) + bytes ! 1, bytes ! 2, drop 3 bytes))"

section \<open>Database read interface (config/database.js)\<close>

text \<open>
  The tables the resolver and the session routes read, as lists of rows.  A setting is
  stored as text and read with \<open>parseInt(database.settings.get(key) || default, 10)\<close>; the map
  \<open>db_settings\<close> holds the integer that \<open>parseInt\<close> yields for a stored decimal value, and a
  missing key gives the default.
\<close>

record state_color =
  sc_red :: int
  sc_green :: int
  sc_blue :: int
  sc_intensity :: int

record apartment_light_row =
  al_apartment_id :: string
  al_light_index :: int
  al_lightswarm_address :: int

record database =
  db_settings :: "string \<rightharpoonup> int"
  db_stateColors :: "string \<rightharpoonup> state_color"
  db_apartments :: "apartment list"
  db_apartment_lights :: "apartment_light_row list"
  db_amenities :: "amenity list"
  db_session_log :: "(string \<times> string option) list"

definition setting :: "database \<Rightarrow> string \<Rightarrow> int \<Rightarrow> int" where
  "setting db key dflt = (case db_settings db key of None \<Rightarrow> dflt | Some v \<Rightarrow> v)"

text \<open>
  A comparison \<open>column = ?\<close> of SQL with the parameter bound to NULL is never true
  (\<open>queryAll\<close> removes \<open>undefined\<close> parameters only, so a \<open>null\<close> argument is bound as NULL);
  a NULL column value does not equal any parameter either.
\<close>

definition sql_eq :: "'a option \<Rightarrow> 'a option \<Rightarrow> bool" where
  "sql_eq column param = (case (column, param) of (Some x, Some y) \<Rightarrow> x = y | _ \<Rightarrow> False)"

text \<open>\<open>apartments.getByFloor\<close>:
  \<open>SELECT * FROM apartments WHERE tower_id = ? AND floor = ? ORDER BY unit_position\<close>.\<close>

definition apartments_getByFloor :: "database \<Rightarrow> string option \<Rightarrow> int option \<Rightarrow> apartment list" where
  "apartments_getByFloor db towerId floor_no =
     sort_key apt_unit_position
       (filter (\<lambda>a. sql_eq (Some (apt_tower_id a)) towerId \<and> sql_eq (Some (apt_floor a)) floor_no)
          (db_apartments db))"

text \<open>\<open>apartments.getByFloorOnly\<close>:
  \<open>SELECT * FROM apartments WHERE floor = ? ORDER BY unit_position\<close>.\<close>

definition apartments_getByFloorOnly :: "database \<Rightarrow> int option \<Rightarrow> apartment list" where
  "apartments_getByFloorOnly db floor_no =
     sort_key apt_unit_position
       (filter (\<lambda>a. sql_eq (Some (apt_floor a)) floor_no) (db_apartments db))"

text \<open>\<open>amenities.getByFloor\<close>: \<open>SELECT * FROM amenities WHERE tower_id = ? AND floor = ?\<close>.\<close>

definition amenities_getByFloor :: "database \<Rightarrow> string option \<Rightarrow> int option \<Rightarrow> amenity list" where
  "amenities_getByFloor db towerId floor_no =
     filter (\<lambda>a. sql_eq (am_tower_id a) towerId \<and> sql_eq (am_floor a) floor_no) (db_amenities db)"

text \<open>\<open>apartments.getFloorRange\<close>: \<open>SELECT MIN(floor), MAX(floor) FROM apartments\<close>; both are NULL
  for an empty table.\<close>

definition getFloorRange :: "database \<Rightarrow> int option \<times> int option" where
  "getFloorRange db =
     (case map apt_floor (db_apartments db) of
        [] \<Rightarrow> (None, None)
      | f # fs \<Rightarrow> (Some (fold min fs f), Some (fold max fs f)))"

text \<open>\<open>apartmentLights.getByApartment\<close>:
  \<open>SELECT * FROM apartment_lights WHERE apartment_id = ? ORDER BY light_index\<close>.\<close>

definition apartmentLights_getByApartment :: "database \<Rightarrow> string \<Rightarrow> apartment_light_row list" where
  "apartmentLights_getByApartment db apartmentId =
     sort_key al_light_index
       (filter (\<lambda>l. al_apartment_id l = apartmentId) (db_apartment_lights db))"

text \<open>\<open>apartments.updateState\<close>: \<open>UPDATE apartments SET current_state = ? WHERE id = ?\<close>.\<close>

definition apartments_updateState :: "string \<Rightarrow> string \<Rightarrow> database \<Rightarrow> database" where
  "apartments_updateState ident state db =
     db\<lparr>db_apartments :=
          map (\<lambda>a. if apt_id a = ident then a\<lparr>apt_current_state := Some state\<rparr> else a)
            (db_apartments db)\<rparr>"

definition sessionLog_add :: "string \<Rightarrow> string option \<Rightarrow> database \<Rightarrow> database" where
  "sessionLog_add eventType agentId db =
     db\<lparr>db_session_log := db_session_log db @ [(eventType, agentId)]\<rparr>"

section \<open>A caller's view of the transport and of timers\<close>

text \<open>
  A route handler awaits every \<open>serial.send(packet)\<close> before it goes on.  A send puts the
  packet on the transport's queue.  While the port is not open the job stays queued and the
  promise stays pending: the caller does not get past its \<open>await\<close>.  With the port open the
  promise either resolves (the packet was written and drained) or rejects (the port
  reported a write error).  \<open>io_events\<close> records, in order, the packets enqueued and the timer
  delays awaited; \<open>io_isOpen\<close> says whether the port is open; \<open>io_write_errors\<close> says for the
  coming writes whether the port reports an error (none when the list is exhausted; never
  in simulation mode).
\<close>

datatype io_event = is_Enqueued: Enqueued "int list" | Delay int

record io =
  io_events :: "io_event list"
  io_isOpen :: bool
  io_write_errors :: "bool list"

text \<open>
  What awaiting an asynchronous call gives: its value, the error it throws, or nothing
  because the awaited promise is never settled.
\<close>

datatype 'a awaited = Resolved 'a | Rejected error | Pending

definition serial_send :: "int list \<Rightarrow> io \<Rightarrow> unit awaited \<times> io" where
  "serial_send packet w =
     (let w' = w\<lparr>io_events := io_events w @ [Enqueued packet]\<rparr>
      in if \<not> io_isOpen w then (Pending, w')
         else case io_write_errors w of
                [] \<Rightarrow> (Resolved (), w')
              | failed # rest \<Rightarrow>
                  (if failed then Rejected Send_error else Resolved (), w'\<lparr>io_write_errors := rest\<rparr>))"

definition delay :: "int \<Rightarrow> io \<Rightarrow> io" where
  "delay ms w = w\<lparr>io_events := io_events w @ [Delay ms]\<rparr>"

text \<open>
  A loop \<open>for (const x of xs) { packet = mk(x); await serial.send(packet); }\<close>: building the
  packet may throw, the awaited send may reject or stay pending; each ends the loop.
\<close>

fun send_each :: "('a \<Rightarrow> error + int list) \<Rightarrow> 'a list \<Rightarrow> io \<Rightarrow> unit awaited \<times> io" where
  "send_each mk [] w = (Resolved (), w)"
| "send_each mk (x # xs) w =
     (case mk x of
        Inl e \<Rightarrow> (Rejected e, w)
      | Inr packet \<Rightarrow>
          (case serial_send packet w of
             (Resolved _, w') \<Rightarrow> send_each mk xs w'
           | (Rejected e, w') \<Rightarrow> (Rejected e, w')
           | (Pending, w') \<Rightarrow> (Pending, w')))"

section \<open>Resolver: lighting an apartment (api/routes/apartments.js)\<close>

text \<open>
  The \<open>rgb\<close> object of a request: each of its properties may be absent.  \<open>getStateColor\<close>
  returns this object itself when it is present with \<open>r\<close> defined, so that its \<open>g\<close> and \<open>b\<close> may
  be \<open>undefined\<close> and an \<open>intensity\<close> it carries is the colour's intensity.  The result is
  \<open>(r, g, b, intensity)\<close>.
\<close>

record rgb_override =
  rgb_r :: "int option"
  rgb_g :: "int option"
  rgb_b :: "int option"
  rgb_intensity :: "int option"

definition getStateColor ::
  "database \<Rightarrow> string \<Rightarrow> rgb_override option \<Rightarrow> int option \<times> int option \<times> int option \<times> int option" where
  "getStateColor db state customRgb =
     (if customRgb \<noteq> None \<and> rgb_r (the customRgb) \<noteq> None
      then (rgb_r (the customRgb), rgb_g (the customRgb), rgb_b (the customRgb),
            rgb_intensity (the customRgb))
      else case db_stateColors db state of
             None \<Rightarrow> (Some 255, Some 255, Some 255, None)
           | Some stateColor \<Rightarrow>
               (Some (sc_red stateColor), Some (sc_green stateColor), Some (sc_blue stateColor),
                Some (sc_intensity stateColor)))"

text \<open>\<open>getApartmentAddresses\<close>; \<open>if (primaryAddress)\<close> is false for \<open>null\<close> and for 0.\<close>

definition getApartmentAddresses :: "database \<Rightarrow> string \<Rightarrow> int option \<Rightarrow> int list" where
  "getApartmentAddresses db apartmentId primaryAddress =
     (let lights = apartmentLights_getByApartment db apartmentId
      in if length lights > 0 then map al_lightswarm_address lights
         else case primaryAddress of
                Some a \<Rightarrow> (if a \<noteq> 0 then [a] else [])
              | None \<Rightarrow> [])"

text \<open>
  \<open>Math.round((channel * actualIntensity) / 255)\<close>; for a channel that is \<open>undefined\<close> the
  product, the quotient and the rounded value are \<open>NaN\<close>, written \<open>None\<close>.
\<close>

definition scaled :: "int option \<Rightarrow> int \<Rightarrow> int option" where
  "scaled channel actualIntensity =
     (case channel of
        None \<Rightarrow> None
      | Some c \<Rightarrow> Some (Math_round (js_div (of_int (c * actualIntensity)) 255)))"

text \<open>
  \<open>packetRgbLevel\<close> on channel values that may be \<open>NaN\<close>.  \<open>Math.round\<close>, \<open>Math.min\<close> and
  \<open>Math.max\<close> pass \<open>NaN\<close> on, the XOR of the checksum reads \<open>NaN\<close> as 0, no \<open>case\<close> of \<open>encode\<close>
  matches it and \<open>Buffer.from\<close> stores it as the byte 0: the packet is that of the level 0.
\<close>

definition packetRgbLevel_js :: "int \<Rightarrow> int option \<Rightarrow> int option \<Rightarrow> int option \<Rightarrow> error + int list" where
  "packetRgbLevel_js address red green blue =
     (let number = (\<lambda>v. case v of None \<Rightarrow> 0 | Some c \<Rightarrow> of_int c)
      in packetRgbLevel address (number red) (number green) (number blue))"

text \<open>
  \<open>packetRgbFadeToColor\<close> on target levels that may be \<open>NaN\<close>.  For a \<open>NaN\<close> target
  \<open>calculateFadeParams\<close> has \<open>levelDiff = NaN\<close>, for which every comparison is false: it returns
  the interval \<open>NaN\<close> and the step 1.  The channel's level and interval are stored as the byte
  0 and its step as 1.
\<close>

definition fade_channel_bytes :: "int option \<Rightarrow> int \<Rightarrow> int list" where
  "fade_channel_bytes target fadeTimeMs =
     (case target of
        None \<Rightarrow> [0, 0, 1]
      | Some level \<Rightarrow>
          (let params = calculateFadeParams 0 level fadeTimeMs
           in [clamp (of_int level) 0 255,
               clamp (of_int (fp_interval params)) 1 255,
               clamp (of_int (fp_step params)) 1 127]))"

definition packetRgbFadeToColor_js ::
  "int \<Rightarrow> int option \<Rightarrow> int option \<Rightarrow> int option \<Rightarrow> int \<Rightarrow> error + int list" where
  "packetRgbFadeToColor_js address red green blue fadeTimeMs =
     (case (red, green, blue) of
        (Some r, Some g, Some b) \<Rightarrow> packetRgbFadeToColor address r g b fadeTimeMs None
      | _ \<Rightarrow>
          map_sum id buildPacket
            (case addressToBytes address of
               Inl e \<Rightarrow> Inl e
             | Inr ab \<Rightarrow>
                 Inr (ab @ [RGB_FADE] @ fade_channel_bytes red fadeTimeMs
                        @ fade_channel_bytes green fadeTimeMs @ fade_channel_bytes blue fadeTimeMs)))"

record light_options =
  opt_intensity :: "int option"
  opt_fadeTimeMs :: "int option"
  opt_rgb :: "rgb_override option"

record light_result =
  res_id :: string
  res_addresses :: "int list"
  res_state :: string
  res_color :: "int option \<times> int option \<times> int option"
  res_fadeTime :: int
  res_lightCount :: nat

definition lightApartment ::
  "io \<Rightarrow> database \<Rightarrow> apartment \<Rightarrow> string \<Rightarrow> light_options \<Rightarrow> light_result awaited \<times> io \<times> database" where
  "lightApartment w db apartment state options =
     (let defaultFadeTime = setting db ''default_fade_time_ms'' 500;
          defaultIntensity = setting db ''default_intensity'' 200;
          actualFadeTime = (case opt_fadeTimeMs options of Some t \<Rightarrow> t | None \<Rightarrow> defaultFadeTime);
          (r, g, b, colorIntensity) = getStateColor db state (opt_rgb options);
          actualIntensity =
            (case opt_intensity options of
               Some i \<Rightarrow> i
             | None \<Rightarrow> (case colorIntensity of Some i \<Rightarrow> i | None \<Rightarrow> defaultIntensity));
          scaledR = scaled r actualIntensity;
          scaledG = scaled g actualIntensity;
          scaledB = scaled b actualIntensity;
          addresses = getApartmentAddresses db (apt_id apartment) (apt_lightswarm_address apartment)
      in if length addresses = 0 then (Rejected (No_light_addresses (apt_id apartment)), w, db)
         else
           case send_each
                  (\<lambda>address.
                     if actualFadeTime > 0
                     then packetRgbFadeToColor_js address scaledR scaledG scaledB actualFadeTime
                     else packetRgbLevel_js address scaledR scaledG scaledB)
                  addresses w of
             (Resolved _, w') \<Rightarrow>
               (Resolved \<lparr>res_id = apt_id apartment, res_addresses = addresses, res_state = state,
                          res_color = (scaledR, scaledG, scaledB), res_fadeTime = actualFadeTime,
                          res_lightCount = length addresses\<rparr>,
                w', apartments_updateState (apt_id apartment) state db)
           | (Rejected e, w') \<Rightarrow> (Rejected e, w', db)
           | (Pending, w') \<Rightarrow> (Pending, w', db))"

section \<open>Session login (api/routes/session.js)\<close>

record engine =
  eng_running :: bool
  eng_currentSequence :: "string option"
  eng_stepIndex :: nat

definition stopAmbient :: "engine \<Rightarrow> engine" where
  "stopAmbient e = e\<lparr>eng_running := False, eng_currentSequence := None, eng_stepIndex := 0\<rparr>"

record app =
  app_db :: database
  app_io :: io
  app_engine :: "engine option"

text \<open>
  The body of the loop over the floors, for the floors still to do.  An apartment whose
  \<open>lightswarm_address\<close> is \<open>null\<close> is addressed as 0 (\<open>null\<close> is 0 in the comparisons and shifts
  of \<open>addressToBytes\<close>).
\<close>

fun login_floors :: "database \<Rightarrow> int \<Rightarrow> int \<Rightarrow> int \<Rightarrow> int list \<Rightarrow> io \<Rightarrow> unit awaited \<times> io" where
  "login_floors db fadeDelayMs fadeTimeMs min_floor [] w = (Resolved (), w)"
| "login_floors db fadeDelayMs fadeTimeMs min_floor (floor_no # floors) w =
     (let fade = (\<lambda>address.
            let fadeParams = calculateFadeParams 255 0 fadeTimeMs
            in packetFade address 0 (of_int (fp_interval fadeParams)) (of_int (fp_step fadeParams)))
      in case send_each (\<lambda>apt. fade (case apt_lightswarm_address apt of None \<Rightarrow> 0 | Some a \<Rightarrow> a))
                (apartments_getByFloor db None (Some floor_no)) w of
           (Rejected e, w1) \<Rightarrow> (Rejected e, w1)
         | (Pending, w1) \<Rightarrow> (Pending, w1)
         | (Resolved _, w1) \<Rightarrow>
             (case send_each (\<lambda>amenity. fade (am_lightswarm_address amenity))
                     (amenities_getByFloor db None (Some floor_no)) w1 of
                (Rejected e, w2) \<Rightarrow> (Rejected e, w2)
              | (Pending, w2) \<Rightarrow> (Pending, w2)
              | (Resolved _, w2) \<Rightarrow>
                  login_floors db fadeDelayMs fadeTimeMs min_floor floors
                    (if floor_no > min_floor then delay fadeDelayMs w2 else w2)))"

text \<open>
  \<open>router.post('/login')\<close>.  The loop \<open>for (floor = max_floor; floor >= min_floor; floor--)\<close>
  visits \<open>max_floor, ..., min_floor\<close>; on an empty apartments table both bounds are NULL and the
  single pass of the loop queries floor NULL, which has no rows.  An exception is handed to
  \<open>next(err)\<close>: the request fails, with the effects up to there.
\<close>

definition login :: "string option \<Rightarrow> app \<Rightarrow> string awaited \<times> app" where
  "login agentId a =
     (let db = sessionLog_add ''login'' agentId (app_db a);
          eng = map_option stopAmbient (app_engine a);
          fadeDelayMs = setting db ''login_fade_delay_ms'' 100;
          fadeTimeMs = setting db ''default_fade_time_ms'' 500;
          (min_floor, floors) =
            (case getFloorRange db of
               (Some mn, Some mx) \<Rightarrow> (mn, rev [mn..mx])
             | _ \<Rightarrow> (0, []))
      in case login_floors db fadeDelayMs fadeTimeMs min_floor floors (app_io a) of
           (Rejected e, w) \<Rightarrow> (Rejected e, \<lparr>app_db = db, app_io = w, app_engine = eng\<rparr>)
         | (Pending, w) \<Rightarrow> (Pending, \<lparr>app_db = db, app_io = w, app_engine = eng\<rparr>)
         | (Resolved _, w) \<Rightarrow>
             (Resolved ''Login successful, ambient animation stopped'',
              \<lparr>app_db = db, app_io = w, app_engine = eng\<rparr>))"

section \<open>Serial transport queue (src/mdp/serial.js)\<close>



























text \<open>
  A two-floor installation (floors 9 and 10, one apartment each), used to run the resolver
  and the login route on concrete input.  The upper apartment has two fixtures, light 1 at
  address 300 and light 2 at address 200; the lower one has no fixture address.
\<close>

definition apartment_A10 :: apartment where
  "apartment_A10 =
     \<lparr>apt_id = ''A-10'', apt_name = ''Ten'', apt_lightswarm_address = Some 100,
      apt_tower_id = ''T1'', apt_floor = 10, apt_floorplate_id = None,
      apt_current_state = Some ''AVAILABLE'', apt_unit_position = Some 1\<rparr>"

definition apartment_A09 :: apartment where
  "apartment_A09 =
     \<lparr>apt_id = ''A-09'', apt_name = ''Nine'', apt_lightswarm_address = None,
      apt_tower_id = ''T1'', apt_floor = 9, apt_floorplate_id = None,
      apt_current_state = Some ''AVAILABLE'', apt_unit_position = Some 1\<rparr>"

definition example_db :: database where
  "example_db =
     \<lparr>db_settings = [''default_fade_time_ms'' \<mapsto> 500, ''default_intensity'' \<mapsto> 200,
                    ''login_fade_delay_ms'' \<mapsto> 100],
      db_stateColors = [''UNAVAILABLE'' \<mapsto>
                         \<lparr>sc_red = 180, sc_green = 80, sc_blue = 0, sc_intensity = 200\<rparr>],
      db_apartments = [apartment_A10, apartment_A09],
      db_apartment_lights =
        [\<lparr>al_apartment_id = ''A-10'', al_light_index = 2, al_lightswarm_address = 200\<rparr>,
         \<lparr>al_apartment_id = ''A-10'', al_light_index = 1, al_lightswarm_address = 300\<rparr>],
      db_amenities = [],
      db_session_log = []\<rparr>"

definition idle_io :: io where
  "idle_io = \<lparr>io_events = [], io_isOpen = True, io_write_errors = []\<rparr>"





definition default_options :: light_options where
  "default_options = \<lparr>opt_intensity = None, opt_fadeTimeMs = None, opt_rgb = None\<rparr>"

definition example_app :: app where
  "example_app = \<lparr>app_db = example_db, app_io = idle_io,
                   app_engine = Some \<lparr>eng_running = True, eng_currentSequence = Some ''default_ambient'',
                                      eng_stepIndex = 0\<rparr>\<rparr>"

text \<open>A one-fixture installation, used to run the simulator on concrete packets.\<close>

definition example_apartment :: apartment where
  "example_apartment =
     \<lparr>apt_id = ''RPT-L09-01'', apt_name = ''Unit 1'', apt_lightswarm_address = Some 5,
      apt_tower_id = ''T1'', apt_floor = 9, apt_floorplate_id = None,
      apt_current_state = Some ''AVAILABLE'', apt_unit_position = Some 1\<rparr>"

definition example_simulator :: simulator where
  "example_simulator =
     setEnabled True (initializeFromDatabase [example_apartment] [] \<lparr>lights = [], enabled = False\<rparr>)"

text \<open>A byte value: an integer in 0..255.\<close>

definition byte :: "int \<Rightarrow> bool" where
  "byte x \<longleftrightarrow> 0 \<le> x \<and> x \<le> 255"

section \<open>Theorems\<close>

lemma Buffer_from_ident:
  "\<forall>b \<in> set xs. 0 \<le> b \<and> b \<le> 255 \<Longrightarrow> Buffer_from xs = xs"
  by (induction xs) (simp_all add: Buffer_from_def)

lemma encode_loop_range:
  "\<forall>b \<in> set P. 0 \<le> b \<and> b \<le> 255 \<Longrightarrow> \<forall>b \<in> set (encode_loop P). 0 \<le> b \<and> b \<le> 255"
  by (induction P) auto

lemma encode_in_range:
  assumes "\<forall>b \<in> set P. 0 \<le> b \<and> b \<le> 255"
  shows "encode P = [SLIP_END] @ encode_loop P @ [SLIP_END]"
  unfolding encode_def
  by (rule Buffer_from_ident) (use encode_loop_range [OF assms] in auto)

lemma decode_encode_loop:
  "decode_loop False (encode_loop P @ rest) = P @ decode_loop False rest"
  by (induction P) auto

text \<open>
  Claim C1.  For every list \<open>P\<close> of bytes (integers in 0..255), decoding the SLIP encoding of
  \<open>P\<close> gives \<open>P\<close> back, and the encoding begins and ends with the delimiter 0xC0.  A payload
  byte 0xC0 is stuffed as 0xDB 0xDC, a payload byte 0xDB as 0xDB 0xDD, and \<open>decode\<close> reverses
  both expansions.
\<close>

theorem slip_roundtrip:
  assumes "\<forall>b \<in> set P. 0 \<le> b \<and> b \<le> 255"
  shows "decode (encode P) = P
       \<and> hd (encode P) = 0xC0 \<and> last (encode P) = 0xC0
       \<and> encode [0xC0] = [0xC0, 0xDB, 0xDC, 0xC0]
       \<and> encode [0xDB] = [0xC0, 0xDB, 0xDD, 0xC0]
       \<and> decode [0xC0, 0xDB, 0xDC, 0xC0] = [0xC0]
       \<and> decode [0xC0, 0xDB, 0xDD, 0xC0] = [0xDB]"
proof -
  have e: "encode P = [SLIP_END] @ encode_loop P @ [SLIP_END]"
    by (rule encode_in_range [OF assms])
  have "decode (encode P) = P"
    by (simp add: e decode_def decode_encode_loop)
  moreover have "hd (encode P) = 0xC0" "last (encode P) = 0xC0"
    by (simp_all add: e)
  moreover have "encode [0xC0] = [0xC0, 0xDB, 0xDC, 0xC0]" "encode [0xDB] = [0xC0, 0xDB, 0xDD, 0xC0]"
    by (simp_all add: encode_def Buffer_from_def)
  moreover have "decode [0xC0, 0xDB, 0xDC, 0xC0] = [0xC0]" "decode [0xC0, 0xDB, 0xDD, 0xC0] = [0xDB]"
    by (simp_all add: decode_def)
  ultimately show ?thesis by blast
qed

theorem slip_roundtrip_witness:
  "set [0x00, 0xC0, 0xDB, 0x01 :: int] \<subseteq> {0..255}
   \<and> encode [0x00, 0xC0, 0xDB, 0x01] = [0xC0, 0x00, 0xDB, 0xDC, 0xDB, 0xDD, 0x01, 0xC0]
   \<and> decode (encode [0x00, 0xC0, 0xDB, 0x01]) = [0x00, 0xC0, 0xDB, 0x01]"
proof -
  have h: "\<forall>b \<in> set [0x00, 0xC0, 0xDB, 0x01 :: int]. 0 \<le> b \<and> b \<le> 255" by simp
  have s: "set [0x00, 0xC0, 0xDB, 0x01 :: int] \<subseteq> {0..255}" by simp
  have "encode [0x00, 0xC0, 0xDB, 0x01] = [0xC0, 0x00, 0xDB, 0xDC, 0xDB, 0xDD, 0x01, 0xC0]"
    by (simp add: encode_def Buffer_from_def)
  with s slip_roundtrip [OF h] show ?thesis by blast
qed

subsection \<open>Binary64 rounding keeps the sign\<close>

lemma ilog2_lower:
  assumes "0 < x"
  shows "2 powi (ilog2 x) \<le> x"
proof (cases "1 \<le> x")
  case True
  define n where "n = nat \<lfloor>x\<rfloor>"
  have n: "0 < n" "real n \<le> x" using True by (auto simp: n_def)
  have fl: "0 < floorlog 2 n" using n by (simp add: floorlog_def)
  have a: "(2::nat) ^ (floorlog 2 n - 1) \<le> n" using floorlog_bounds [of n 2] n by simp
  have "(2::real) ^ (floorlog 2 n - 1) \<le> real n"
    using a by (metis of_nat_le_iff of_nat_numeral of_nat_power)
  then have b: "(2::real) ^ (floorlog 2 n - 1) \<le> x" using n(2) by linarith
  have c: "ilog2 x = int (floorlog 2 n - 1)" using True fl by (simp add: ilog2_def n_def)
  show ?thesis unfolding c using b by simp
next
  case False
  define m where "m = nat (\<lceil>1 / x\<rceil> - 1)"
  define k where "k = floorlog 2 m"
  have "1 < 1 / x" using False assms by simp
  then have c: "2 \<le> \<lceil>1 / x\<rceil>" by (simp only: le_ceiling_iff)
  have m2: "int m = \<lceil>1 / x\<rceil> - 1" unfolding m_def using c by linarith
  have m1: "0 < m" using c m2 by linarith
  note m = m1 m2
  have "m < 2 ^ k" using floorlog_bounds [of m 2] m by (simp add: k_def)
  then have "int m < 2 ^ k" by (metis of_nat_less_iff of_nat_numeral of_nat_power)
  then have "\<lceil>1 / x\<rceil> \<le> 2 ^ k" using m by simp
  then have "1 / x \<le> 2 ^ k" by (simp add: ceiling_le_iff)
  then have "1 / 2 ^ k \<le> x" using assms by (simp add: field_simps)
  moreover have "ilog2 x = - int k" using False by (simp add: ilog2_def k_def m_def)
  ultimately show ?thesis by (simp add: power_int_minus_divide)
qed

lemma round_ties_even_ge: "\<lfloor>x\<rfloor> \<le> round_ties_even x"
  by (simp add: round_ties_even_def Let_def)

lemma to_double_pos:
  assumes "0 < x"
  shows "0 < to_double x"
proof -
  define e where "e = ilog2 \<bar>x\<bar> - 52"
  have "2 powi e \<le> (2::real) powi (ilog2 x)" unfolding e_def using assms
    by (intro power_int_increasing) auto
  also have "\<dots> \<le> x" by (rule ilog2_lower [OF assms])
  finally have "1 \<le> x / 2 powi e" by (simp add: field_simps)
  then have "1 \<le> \<lfloor>x / 2 powi e\<rfloor>" by simp
  then have "0 < round_ties_even (x / 2 powi e)" using round_ties_even_ge [of "x / 2 powi e"] by linarith
  then show ?thesis using assms by (simp add: to_double_def Let_def e_def)
qed

lemma js_div_pos: "0 < a \<Longrightarrow> 0 < b \<Longrightarrow> 0 < js_div a b"
  by (simp add: js_div_def to_double_pos)


lemma js_div_zero: "js_div 0 b = 0"
  by (simp add: js_div_def to_double_def)



lemma to_double_minus: "to_double (- x) = - to_double x"
  by (simp add: to_double_def Let_def)

lemma js_div_neg: "a < 0 \<Longrightarrow> 0 < b \<Longrightarrow> js_div a b < 0"
proof -
  assume "a < 0" "0 < b"
  then have "0 < js_div (- a) b" by (intro js_div_pos) auto
  then show ?thesis using to_double_minus [of "a / b"] by (simp add: js_div_def)
qed

lemma js_div_neg2: "0 < a \<Longrightarrow> b < 0 \<Longrightarrow> js_div a b < 0"
proof -
  assume "0 < a" "b < 0"
  then have "0 < js_div a (- b)" by (intro js_div_pos) auto
  then show ?thesis using to_double_minus [of "a / b"] by (simp add: js_div_def)
qed

lemma calculateFadeParams_binary64:
  "calculateFadeParams 0 21 7 = \<lparr>fp_interval = 1, fp_step = 31\<rparr>"
  by code_simp

text \<open>
  Claim C2 (as amended).  \<open>calculateFadeParams s t d\<close> returns interval 1 and step 1 when
  \<open>\<bar>t - s\<bar> = 0\<close>.  Otherwise, with \<open>u = d / 10\<close> and \<open>iv = round (u / \<bar>t - s\<bar>)\<close>, where every
  division is the IEEE-754 binary64 division of the program (the exact quotient rounded to
  the nearest binary64 value): when \<open>iv\<close> lies in 1..255 the result is interval \<open>iv\<close> and step
  1; when \<open>iv\<close> exceeds 255 the interval is clamped to 255 with step 1; when \<open>iv\<close> is below 1
  the interval is 1 and, for a duration \<open>d > 0\<close>, the step is \<open>min 127 \<lceil>\<bar>t - s\<bar> / u\<rceil>\<close> with the
  ceiling taken of the rounded quotient; for \<open>d = 0\<close> the quotient is infinite and the step is
  127, and for \<open>d < 0\<close> the final clamp gives step 1.  The result always has
  \<open>1 \<le> interval \<le> 255\<close> and \<open>1 \<le> step \<le> 127\<close>.  For \<open>s = 0\<close>, \<open>t = 255\<close>, \<open>d = 500\<close> the result is
  interval 1 and step 6, and the FADE command bytes for address 100 to level 255 with these
  parameters are \<open>00 64 23 FF 01 06\<close>.  For \<open>s = 0\<close>, \<open>t = 21\<close>, \<open>d = 7\<close> the result is interval 1 and
  step 31.
\<close>

theorem calculateFadeParams_plan:
  "(let diff = \<bar>t - s\<bar>;
        u = js_div (of_int d) 10;
        iv = Math_round (js_div u (of_int diff));
        res = calculateFadeParams s t d
    in (diff = 0 \<longrightarrow> res = \<lparr>fp_interval = 1, fp_step = 1\<rparr>)
     \<and> (diff \<noteq> 0 \<and> 1 \<le> iv \<and> iv \<le> 255 \<longrightarrow> res = \<lparr>fp_interval = iv, fp_step = 1\<rparr>)
     \<and> (diff \<noteq> 0 \<and> 255 < iv \<longrightarrow> res = \<lparr>fp_interval = 255, fp_step = 1\<rparr>)
     \<and> (diff \<noteq> 0 \<and> iv < 1 \<and> 0 < d \<longrightarrow>
          res = \<lparr>fp_interval = 1, fp_step = min 127 \<lceil>js_div (of_int diff) u\<rceil>\<rparr>)
     \<and> (diff \<noteq> 0 \<and> d = 0 \<longrightarrow> res = \<lparr>fp_interval = 1, fp_step = 127\<rparr>)
     \<and> (diff \<noteq> 0 \<and> d < 0 \<longrightarrow> res = \<lparr>fp_interval = 1, fp_step = 1\<rparr>)
     \<and> 1 \<le> fp_interval res \<and> fp_interval res \<le> 255
     \<and> 1 \<le> fp_step res \<and> fp_step res \<le> 127)
   \<and> calculateFadeParams 0 255 500 = \<lparr>fp_interval = 1, fp_step = 6\<rparr>
   \<and> buildFadeCommand 100 255 1 6 = Inr [0x00, 0x64, 0x23, 0xFF, 0x01, 0x06]
   \<and> calculateFadeParams 0 21 7 = \<lparr>fp_interval = 1, fp_step = 31\<rparr>"
proof -
  define diff where "diff = \<bar>t - s\<bar>"
  define u where "u = js_div (of_int d) 10"
  define iv where "iv = Math_round (js_div u (of_int diff))"
  define res where "res = calculateFadeParams s t d"
  have r0: "diff = 0 \<Longrightarrow> res = \<lparr>fp_interval = 1, fp_step = 1\<rparr>"
    by (simp add: res_def calculateFadeParams_def diff_def)
  have r1: "diff \<noteq> 0 \<Longrightarrow> 1 \<le> iv \<Longrightarrow> iv \<le> 255 \<Longrightarrow> res = \<lparr>fp_interval = iv, fp_step = 1\<rparr>"
    by (simp add: res_def calculateFadeParams_def Let_def diff_def iv_def u_def)
  have r2: "diff \<noteq> 0 \<Longrightarrow> 255 < iv \<Longrightarrow> res = \<lparr>fp_interval = 255, fp_step = 1\<rparr>"
    by (simp add: res_def calculateFadeParams_def Let_def diff_def iv_def u_def)
  have r3: "res = \<lparr>fp_interval = 1, fp_step = min 127 \<lceil>js_div (of_int diff) u\<rceil>\<rparr>"
    if "diff \<noteq> 0" "iv < 1" "0 < d"
  proof -
    have "0 < u" unfolding u_def using that by (intro js_div_pos) auto
    moreover have "0 < diff" using that by (simp add: diff_def)
    ultimately have "0 < js_div (of_int diff) u" by (intro js_div_pos) auto
    then have "1 \<le> \<lceil>js_div (of_int diff) u\<rceil>" by linarith
    then show ?thesis using that \<open>0 < u\<close>
      by (simp add: res_def calculateFadeParams_def Let_def diff_def iv_def u_def)
  qed
  have r4: "diff \<noteq> 0 \<Longrightarrow> d = 0 \<Longrightarrow> res = \<lparr>fp_interval = 1, fp_step = 127\<rparr>"
    by (simp add: res_def calculateFadeParams_def Let_def diff_def js_div_zero Math_round_def)
  have r5: "res = \<lparr>fp_interval = 1, fp_step = 1\<rparr>" if "diff \<noteq> 0" "d < 0"
  proof -
    have p: "0 < diff" using that by (simp add: diff_def)
    have un: "u < 0" unfolding u_def using that by (intro js_div_neg) auto
    have "js_div u (of_int diff) < 0" using un p by (intro js_div_neg) auto
    then have i: "iv < 1" unfolding iv_def Math_round_def by linarith
    have "js_div (of_int diff) u < 0" using un p by (intro js_div_neg2) auto
    then have c: "\<lceil>js_div (of_int diff) u\<rceil> \<le> 0" by linarith
    show ?thesis using that i c un
      by (simp add: res_def calculateFadeParams_def Let_def diff_def iv_def u_def)
  qed
  have b: "1 \<le> fp_interval res \<and> fp_interval res \<le> 255 \<and> 1 \<le> fp_step res \<and> fp_step res \<le> 127"
    by (simp add: res_def calculateFadeParams_def Let_def split: prod.splits)
  have ex: "calculateFadeParams 0 255 500 = \<lparr>fp_interval = 1, fp_step = 6\<rparr>"
    by code_simp
  have cmd: "buildFadeCommand 100 255 1 6 = Inr [0x00, 0x64, 0x23, 0xFF, 0x01, 0x06]"
    by (simp add: buildFadeCommand_def addressToBytes_def Math_round_def)
  show ?thesis
    unfolding Let_def diff_def [symmetric] u_def [symmetric] iv_def [symmetric] res_def [symmetric]
    using r0 r1 r2 r3 r4 r5 b ex cmd calculateFadeParams_binary64 by blast
qed


theorem calculateFadeParams_plan_witness:
  "calculateFadeParams 100 100 500 = \<lparr>fp_interval = 1, fp_step = 1\<rparr>
   \<and> calculateFadeParams 0 255 5000 = \<lparr>fp_interval = 2, fp_step = 1\<rparr>
   \<and> calculateFadeParams 0 1 10000 = \<lparr>fp_interval = 255, fp_step = 1\<rparr>
   \<and> (0::int) < 500 \<and> calculateFadeParams 0 255 500 = \<lparr>fp_interval = 1, fp_step = 6\<rparr>
   \<and> calculateFadeParams 0 255 0 = \<lparr>fp_interval = 1, fp_step = 127\<rparr>
   \<and> (-500::int) < 0 \<and> calculateFadeParams 0 255 (-500) = \<lparr>fp_interval = 1, fp_step = 1\<rparr>"
proof -
  have iv1: "Math_round (js_div (js_div 5000 10) 255) = 2" by code_simp
  have iv2: "Math_round (js_div (js_div 10000 10) 1) = 1000" by code_simp
  have a: "calculateFadeParams 100 100 500 = \<lparr>fp_interval = 1, fp_step = 1\<rparr>"
    using calculateFadeParams_plan [of 100 100 500] by (simp add: Let_def)
  have b: "calculateFadeParams 0 255 5000 = \<lparr>fp_interval = 2, fp_step = 1\<rparr>"
    using calculateFadeParams_plan [of 255 0 5000] by (simp add: Let_def iv1)
  have c: "calculateFadeParams 0 1 10000 = \<lparr>fp_interval = 255, fp_step = 1\<rparr>"
    using calculateFadeParams_plan [of 1 0 10000] by (simp add: Let_def iv2)
  have d: "calculateFadeParams 0 255 500 = \<lparr>fp_interval = 1, fp_step = 6\<rparr>"
    using calculateFadeParams_plan [of 255 0 500] by (simp add: Let_def)
  have e: "calculateFadeParams 0 255 0 = \<lparr>fp_interval = 1, fp_step = 127\<rparr>"
    using calculateFadeParams_plan [of 255 0 0] by (simp add: Let_def)
  have f: "calculateFadeParams 0 255 (-500) = \<lparr>fp_interval = 1, fp_step = 1\<rparr>"
    using calculateFadeParams_plan [of 255 0 "-500"] by (simp add: Let_def)
  show ?thesis using a b c d e f by simp
qed


text \<open>
  Claim C2 as stated computes the step as \<open>min (127, \<lceil>\<bar>t - s\<bar> / u\<rceil>)\<close> with \<open>u = d / 10\<close>.  For
  \<open>s = 0\<close>, \<open>t = 21\<close>, \<open>d = 7\<close> that is \<open>u = 7 / 10\<close>, \<open>round (u / 21) = 0\<close> and the step
  \<open>\<lceil>21 / (7 / 10)\<rceil> = 30\<close>; the program returns the step 31, because its quotient
  \<open>21 / 0.7\<close> is the binary64 value just above 30.
\<close>

theorem calculateFadeParams_exact_counterexample:
  "calculateFadeParams 0 21 7 = \<lparr>fp_interval = 1, fp_step = 31\<rparr>
   \<and> \<lfloor>((7::real) / 10) / 21 + 1 / 2\<rfloor> = 0
   \<and> min 127 \<lceil>(21::real) / (7 / 10)\<rceil> = 30"
  using calculateFadeParams_binary64 by simp

text \<open>
  Claim C3 (as amended).  Building an RGB_LEVEL packet for address 100 with colour
  (255, 128, 64) yields the command bytes \<open>00 64 2C FF 80 40\<close>; their XOR checksum is 0x77, and
  the framed wire packet \<open>packetRgbLevel 100 255 128 64\<close> is \<open>C0 00 64 2C FF 80 40 77 C0\<close>.
\<close>

theorem packetRgbLevel_example:
  "buildRgbLevelCommand 100 255 128 64 = Inr [0x00, 0x64, 0x2C, 0xFF, 0x80, 0x40]
   \<and> calculateChecksum [0x00, 0x64, 0x2C, 0xFF, 0x80, 0x40] = 0x77
   \<and> packetRgbLevel 100 255 128 64 = Inr [0xC0, 0x00, 0x64, 0x2C, 0xFF, 0x80, 0x40, 0x77, 0xC0]"
  by (simp add: packetRgbLevel_def buildRgbLevelCommand_def addressToBytes_def Math_round_def
      buildPacket_def calculateChecksum_def encode_def Buffer_from_def)


text \<open>
  Claim C3 as stated gives the checksum 0x17 and the packet \<open>C0 00 64 2C FF 80 40 17 C0\<close>;
  the program does not produce that packet.
\<close>

theorem packetRgbLevel_counterexample:
  "packetRgbLevel 100 255 128 64 \<noteq> Inr [0xC0, 0x00, 0x64, 0x2C, 0xFF, 0x80, 0x40, 0x17, 0xC0]"
  by (simp add: packetRgbLevel_def buildRgbLevelCommand_def addressToBytes_def Math_round_def
      buildPacket_def calculateChecksum_def encode_def Buffer_from_def)



subsection \<open>Command encoders\<close>

lemma two_bytes:
  assumes "0 \<le> (x::int)" "x \<le> 65535"
  shows "0 \<le> drop_bit 8 x AND 0xFF \<and> drop_bit 8 x AND 0xFF \<le> 255
       \<and> 0 \<le> x AND 0xFF \<and> x AND 0xFF \<le> 255
       \<and> 256 * (drop_bit 8 x AND 0xFF) + (x AND 0xFF) = x"
proof -
  have m: "(255::int) = mask 8" by (simp add: mask_eq_exp_minus_1)
  have lo: "x AND 0xFF = x mod 256" unfolding m by (simp add: take_bit_eq_mod flip: take_bit_eq_mask)
  have hi: "drop_bit 8 x AND 0xFF = x div 256"
  proof -
    have "drop_bit 8 x = x div 256" by (simp add: drop_bit_eq_div)
    moreover have "0 \<le> x div 256" "x div 256 < 256" using assms by auto
    ultimately show ?thesis unfolding m by (simp add: take_bit_eq_mod flip: take_bit_eq_mask)
  qed
  show ?thesis unfolding lo hi using assms by auto
qed

lemma clamp_range: "mn \<le> mx \<Longrightarrow> mn \<le> clamp v mn mx \<and> clamp v mn mx \<le> mx"
  by (simp add: clamp_def)


lemma addressToBytes_ok:
  assumes "0 \<le> address" "address \<le> 65535"
  shows "\<exists>hi lo. addressToBytes address = Inr [hi, lo]
           \<and> 0 \<le> hi \<and> hi \<le> 255 \<and> 0 \<le> lo \<and> lo \<le> 255 \<and> 256 * hi + lo = address"
  using two_bytes [OF assms] assms by (simp add: addressToBytes_def)

lemma addressToBytes_bad:
  "address < 0 \<or> 65535 < address \<Longrightarrow> addressToBytes address = Inl (Invalid_address address)"
  by (auto simp: addressToBytes_def)


text \<open>
  Claim C4 (as amended).  For every address in 0..65535 and all numeric field values, the
  command encoders \<open>buildLevelCommand\<close>, \<open>buildFadeCommand\<close>, \<open>buildRgbLevelCommand\<close>,
  \<open>buildRgbFadeCommand\<close> and \<open>buildFlashCommand\<close> succeed: out-of-range field values are coerced
  into the documented ranges, not rejected.  The two address bytes pack the address
  big-endian, encoded level bytes lie in 0..255, intervals in 1..255 and steps in 1..127 (for
  FLASH the 16-bit step count lies in 2..65535 and the 16-bit intervals in 1..65535).  An
  address outside 0..65535 is rejected: \<open>addressToBytes\<close>, and with it every encoder, raises
  the invalid-address error.
\<close>

theorem encoders_clamp:
  "(0 \<le> address \<and> address \<le> 65535 \<longrightarrow>
      (\<exists>hi lo. addressToBytes address = Inr [hi, lo] \<and> byte hi \<and> byte lo \<and> 256 * hi + lo = address
        \<and> (\<exists>lv. buildLevelCommand address level = Inr [hi, lo, 0x22, lv] \<and> 0 \<le> lv \<and> lv \<le> 255)
        \<and> (\<exists>lv iv st. buildFadeCommand address level interval step = Inr [hi, lo, 0x23, lv, iv, st]
              \<and> 0 \<le> lv \<and> lv \<le> 255 \<and> 1 \<le> iv \<and> iv \<le> 255 \<and> 1 \<le> st \<and> st \<le> 127)
        \<and> (\<exists>r g b. buildRgbLevelCommand address red green blue = Inr [hi, lo, 0x2C, r, g, b]
              \<and> 0 \<le> r \<and> r \<le> 255 \<and> 0 \<le> g \<and> g \<le> 255 \<and> 0 \<le> b \<and> b \<le> 255)
        \<and> (\<exists>rl ri rs gl gi gs bl bi bs.
              buildRgbFadeCommand address cr cg cb = Inr [hi, lo, 0x31, rl, ri, rs, gl, gi, gs, bl, bi, bs]
              \<and> 0 \<le> rl \<and> rl \<le> 255 \<and> 1 \<le> ri \<and> ri \<le> 255 \<and> 1 \<le> rs \<and> rs \<le> 127
              \<and> 0 \<le> gl \<and> gl \<le> 255 \<and> 1 \<le> gi \<and> gi \<le> 255 \<and> 1 \<le> gs \<and> gs \<le> 127
              \<and> 0 \<le> bl \<and> bl \<le> 255 \<and> 1 \<le> bi \<and> bi \<le> 255 \<and> 1 \<le> bs \<and> bs \<le> 127)
        \<and> (\<exists>sh sl ah al bh bl la lb.
              buildFlashCommand address levelA levelB flashSteps intervalA intervalB
                = Inr [hi, lo, 0x2E, sh, sl, ah, al, bh, bl, la, lb]
              \<and> byte sh \<and> byte sl \<and> byte ah \<and> byte al \<and> byte bh \<and> byte bl
              \<and> 2 \<le> 256 * sh + sl \<and> 256 * sh + sl \<le> 65535
              \<and> 1 \<le> 256 * ah + al \<and> 256 * ah + al \<le> 65535
              \<and> 1 \<le> 256 * bh + bl \<and> 256 * bh + bl \<le> 65535
              \<and> 0 \<le> la \<and> la \<le> 255 \<and> 0 \<le> lb \<and> lb \<le> 255)))
   \<and> (address < 0 \<or> 65535 < address \<longrightarrow>
        addressToBytes address = Inl (Invalid_address address)
      \<and> buildLevelCommand address level = Inl (Invalid_address address)
      \<and> buildFadeCommand address level interval step = Inl (Invalid_address address)
      \<and> buildRgbLevelCommand address red green blue = Inl (Invalid_address address)
      \<and> buildRgbFadeCommand address cr cg cb = Inl (Invalid_address address)
      \<and> buildFlashCommand address levelA levelB flashSteps intervalA intervalB
           = Inl (Invalid_address address))"
proof (intro conjI impI)
  assume a: "0 \<le> address \<and> address \<le> 65535"
  then obtain hi lo where ab: "addressToBytes address = Inr [hi, lo]"
    and r: "0 \<le> hi" "hi \<le> 255" "0 \<le> lo" "lo \<le> 255" "256 * hi + lo = address"
    using addressToBytes_ok [of address] by blast
  have c: "\<And>v mn mx. mn \<le> mx \<Longrightarrow> mn \<le> clamp v mn mx \<and> clamp v mn mx \<le> mx"
    by (rule clamp_range)
  have s: "0 \<le> clamp flashSteps 2 65535" "clamp flashSteps 2 65535 \<le> 65535" "2 \<le> clamp flashSteps 2 65535"
    and ia: "0 \<le> clamp intervalA 1 65535" "clamp intervalA 1 65535 \<le> 65535" "1 \<le> clamp intervalA 1 65535"
    and ib: "0 \<le> clamp intervalB 1 65535" "clamp intervalB 1 65535 \<le> 65535" "1 \<le> clamp intervalB 1 65535"
    by (simp_all add: clamp_def)
  have lvl: "\<exists>lv. buildLevelCommand address level = Inr [hi, lo, 0x22, lv] \<and> 0 \<le> lv \<and> lv \<le> 255"
    by (simp add: buildLevelCommand_def ab)
  have fade: "\<exists>lv iv st. buildFadeCommand address level interval step = Inr [hi, lo, 0x23, lv, iv, st]
              \<and> 0 \<le> lv \<and> lv \<le> 255 \<and> 1 \<le> iv \<and> iv \<le> 255 \<and> 1 \<le> st \<and> st \<le> 127"
    by (simp add: buildFadeCommand_def ab)
  have rgb: "\<exists>r g b. buildRgbLevelCommand address red green blue = Inr [hi, lo, 0x2C, r, g, b]
              \<and> 0 \<le> r \<and> r \<le> 255 \<and> 0 \<le> g \<and> g \<le> 255 \<and> 0 \<le> b \<and> b \<le> 255"
    by (simp add: buildRgbLevelCommand_def ab)
  have rgbf: "\<exists>rl ri rs gl gi gs bl bi bs.
              buildRgbFadeCommand address cr cg cb = Inr [hi, lo, 0x31, rl, ri, rs, gl, gi, gs, bl, bi, bs]
              \<and> 0 \<le> rl \<and> rl \<le> 255 \<and> 1 \<le> ri \<and> ri \<le> 255 \<and> 1 \<le> rs \<and> rs \<le> 127
              \<and> 0 \<le> gl \<and> gl \<le> 255 \<and> 1 \<le> gi \<and> gi \<le> 255 \<and> 1 \<le> gs \<and> gs \<le> 127
              \<and> 0 \<le> bl \<and> bl \<le> 255 \<and> 1 \<le> bi \<and> bi \<le> 255 \<and> 1 \<le> bs \<and> bs \<le> 127"
    by (simp add: buildRgbFadeCommand_def ab clamp_def)
  have flash: "\<exists>sh sl ah al bh bl la lb.
              buildFlashCommand address levelA levelB flashSteps intervalA intervalB
                = Inr [hi, lo, 0x2E, sh, sl, ah, al, bh, bl, la, lb]
              \<and> byte sh \<and> byte sl \<and> byte ah \<and> byte al \<and> byte bh \<and> byte bl
              \<and> 2 \<le> 256 * sh + sl \<and> 256 * sh + sl \<le> 65535
              \<and> 1 \<le> 256 * ah + al \<and> 256 * ah + al \<le> 65535
              \<and> 1 \<le> 256 * bh + bl \<and> 256 * bh + bl \<le> 65535
              \<and> 0 \<le> la \<and> la \<le> 255 \<and> 0 \<le> lb \<and> lb \<le> 255"
    using two_bytes [OF s(1,2)] two_bytes [OF ia(1,2)] two_bytes [OF ib(1,2)] s(2,3) ia(2,3) ib(2,3)
      c [of 0 255 levelA] c [of 0 255 levelB]
    by (simp add: buildFlashCommand_def ab byte_def Let_def)
  show "\<exists>hi lo. addressToBytes address = Inr [hi, lo] \<and> byte hi \<and> byte lo \<and> 256 * hi + lo = address
        \<and> (\<exists>lv. buildLevelCommand address level = Inr [hi, lo, 0x22, lv] \<and> 0 \<le> lv \<and> lv \<le> 255)
        \<and> (\<exists>lv iv st. buildFadeCommand address level interval step = Inr [hi, lo, 0x23, lv, iv, st]
              \<and> 0 \<le> lv \<and> lv \<le> 255 \<and> 1 \<le> iv \<and> iv \<le> 255 \<and> 1 \<le> st \<and> st \<le> 127)
        \<and> (\<exists>r g b. buildRgbLevelCommand address red green blue = Inr [hi, lo, 0x2C, r, g, b]
              \<and> 0 \<le> r \<and> r \<le> 255 \<and> 0 \<le> g \<and> g \<le> 255 \<and> 0 \<le> b \<and> b \<le> 255)
        \<and> (\<exists>rl ri rs gl gi gs bl bi bs.
              buildRgbFadeCommand address cr cg cb = Inr [hi, lo, 0x31, rl, ri, rs, gl, gi, gs, bl, bi, bs]
              \<and> 0 \<le> rl \<and> rl \<le> 255 \<and> 1 \<le> ri \<and> ri \<le> 255 \<and> 1 \<le> rs \<and> rs \<le> 127
              \<and> 0 \<le> gl \<and> gl \<le> 255 \<and> 1 \<le> gi \<and> gi \<le> 255 \<and> 1 \<le> gs \<and> gs \<le> 127
              \<and> 0 \<le> bl \<and> bl \<le> 255 \<and> 1 \<le> bi \<and> bi \<le> 255 \<and> 1 \<le> bs \<and> bs \<le> 127)
        \<and> (\<exists>sh sl ah al bh bl la lb.
              buildFlashCommand address levelA levelB flashSteps intervalA intervalB
                = Inr [hi, lo, 0x2E, sh, sl, ah, al, bh, bl, la, lb]
              \<and> byte sh \<and> byte sl \<and> byte ah \<and> byte al \<and> byte bh \<and> byte bl
              \<and> 2 \<le> 256 * sh + sl \<and> 256 * sh + sl \<le> 65535
              \<and> 1 \<le> 256 * ah + al \<and> 256 * ah + al \<le> 65535
              \<and> 1 \<le> 256 * bh + bl \<and> 256 * bh + bl \<le> 65535
              \<and> 0 \<le> la \<and> la \<le> 255 \<and> 0 \<le> lb \<and> lb \<le> 255)"
    using ab r lvl fade rgb rgbf flash unfolding byte_def by blast
next
  assume b: "address < 0 \<or> 65535 < address"
  note e = addressToBytes_bad [OF b]
  show "addressToBytes address = Inl (Invalid_address address)" by (rule e)
  show "buildLevelCommand address level = Inl (Invalid_address address)"
    by (simp add: buildLevelCommand_def e)
  show "buildFadeCommand address level interval step = Inl (Invalid_address address)"
    by (simp add: buildFadeCommand_def e)
  show "buildRgbLevelCommand address red green blue = Inl (Invalid_address address)"
    by (simp add: buildRgbLevelCommand_def e)
  show "buildRgbFadeCommand address cr cg cb = Inl (Invalid_address address)"
    by (simp add: buildRgbFadeCommand_def e)
  show "buildFlashCommand address levelA levelB flashSteps intervalA intervalB
           = Inl (Invalid_address address)"
    by (simp add: buildFlashCommand_def e)
qed


theorem encoders_clamp_witness:
  "(0::int) \<le> 100 \<and> (100::int) \<le> 65535
   \<and> (\<exists>hi lo lv iv st. buildFadeCommand 100 300 0 1000 = Inr [hi, lo, 0x23, lv, iv, st]
         \<and> 0 \<le> lv \<and> lv \<le> 255 \<and> 1 \<le> iv \<and> iv \<le> 255 \<and> 1 \<le> st \<and> st \<le> 127)
   \<and> buildFadeCommand 100 300 0 1000 = Inr [0x00, 0x64, 0x23, 0xFF, 0x01, 0x7F]
   \<and> 65535 < (70000::int)
   \<and> buildFadeCommand 70000 300 0 1000 = Inl (Invalid_address 70000)"
proof -
  let ?z = "\<lparr>ch_level = 0, ch_interval = 0, ch_step = 0\<rparr>"
  have h: "0 \<le> (100::int) \<and> (100::int) \<le> 65535" by simp
  have g: "(70000::int) < 0 \<or> 65535 < (70000::int)" by simp
  note ok = encoders_clamp [where address = 100 and level = 300 and interval = 0 and step = 1000
      and red = 0 and green = 0 and blue = 0 and cr = ?z and cg = ?z and cb = ?z
      and levelA = 0 and levelB = 0 and flashSteps = 0 and intervalA = 0 and intervalB = 0,
      THEN conjunct1, THEN mp, OF h]
  note bad = encoders_clamp [where address = 70000 and level = 300 and interval = 0 and step = 1000
      and red = 0 and green = 0 and blue = 0 and cr = ?z and cg = ?z and cb = ?z
      and levelA = 0 and levelB = 0 and flashSteps = 0 and intervalA = 0 and intervalB = 0,
      THEN conjunct2, THEN mp, OF g]
  have a: "\<exists>hi lo lv iv st. buildFadeCommand 100 300 0 1000 = Inr [hi, lo, 0x23, lv, iv, st]
         \<and> 0 \<le> lv \<and> lv \<le> 255 \<and> 1 \<le> iv \<and> iv \<le> 255 \<and> 1 \<le> st \<and> st \<le> 127"
    using ok by blast
  have b: "buildFadeCommand 100 300 0 1000 = Inr [0x00, 0x64, 0x23, 0xFF, 0x01, 0x7F]"
    by (simp add: buildFadeCommand_def addressToBytes_def Math_round_def)
  have c: "buildFadeCommand 70000 300 0 1000 = Inl (Invalid_address 70000)"
    using bad by blast
  show ?thesis using a b c by simp
qed


text \<open>
  Claim C4 as stated says that no input, an address outside 0..65535 included, makes an
  encoder raise an error.  The address 70000 does.
\<close>

theorem encoders_clamp_counterexample:
  "addressToBytes 70000 = Inl (Invalid_address 70000)
   \<and> buildRgbFadeCommand 70000
        \<lparr>ch_level = 255, ch_interval = 1, ch_step = 6\<rparr>
        \<lparr>ch_level = 128, ch_interval = 1, ch_step = 3\<rparr>
        \<lparr>ch_level = 64, ch_interval = 1, ch_step = 2\<rparr> = Inl (Invalid_address 70000)"
  by (simp add: addressToBytes_def buildRgbFadeCommand_def)



subsection \<open>Simulator\<close>

lemma any_positive_max: "(r > 0 \<or> g > 0 \<or> b > 0) \<longleftrightarrow> max r (max g b) > (0::int)"
  by (simp add: less_max_iff_disj)

lemma switch_command_ok:
  assumes "light_ok l"
  shows "light_ok (l\<lparr>light_state := fst (switch_command command data (light_state l)), lastUpdated := x\<rparr>)"
proof -
  consider "command = 0x20" | "command = 0x21" | "command = 0x22" | "command = 0x23"
    | "command = 0x2C" | "command = 0x31"
    | "command \<noteq> 0x20" "command \<noteq> 0x21" "command \<noteq> 0x22" "command \<noteq> 0x23"
      "command \<noteq> 0x2C" "command \<noteq> 0x31"
    by blast
  then show ?thesis
  proof cases
    case 1 then show ?thesis by (simp add: switch_command_def light_ok_def)
  next
    case 2 then show ?thesis by (simp add: switch_command_def light_ok_def)
  next
    case 3 then show ?thesis by (simp add: switch_command_def light_ok_def Let_def)
  next
    case 4 then show ?thesis by (simp add: switch_command_def light_ok_def Let_def)
  next
    case 5 then show ?thesis by (simp add: switch_command_def light_ok_def Let_def any_positive_max)
  next
    case 6 then show ?thesis by (simp add: switch_command_def light_ok_def Let_def any_positive_max)
  next
    case 7 then show ?thesis using assms by (simp add: switch_command_def light_ok_def)
  qed
qed

lemma table_ok_update:
  "table_ok ls \<Longrightarrow> light_ok v \<Longrightarrow> table_ok (AList.update k v ls)"
  by (induction ls) (auto simp: table_ok_def)

lemma table_ok_lookup:
  "table_ok ls \<Longrightarrow> map_of ls k = Some l \<Longrightarrow> light_ok l"
  by (auto simp: table_ok_def dest: map_of_SomeD)

lemma executeSingle_ok:
  assumes "table_ok ls"
  shows "table_ok (snd (executeSingle address command data now ls))"
proof (cases "map_of ls address")
  case None
  then show ?thesis using assms by (simp add: executeSingle_def)
next
  case (Some l)
  have "light_ok l" by (rule table_ok_lookup [OF assms Some])
  from switch_command_ok [OF this, where command = command and data = data and x = "Some now"] show ?thesis
    using assms Some by (simp add: executeSingle_def split_beta Let_def table_ok_update)
qed

lemma executeBroadcast_loop_ok:
  "table_ok ls \<Longrightarrow> table_ok (snd (executeBroadcast_loop keys command data now n ls))"
proof (induction keys arbitrary: n ls)
  case Nil
  then show ?case by simp
next
  case (Cons k keys)
  obtain r ls' where e: "executeSingle k command data now ls = (r, ls')"
    by (cases "executeSingle k command data now ls")
  have "table_ok ls'" using executeSingle_ok [OF Cons.prems, of k command data now] e by simp
  then show ?case using Cons.IH Cons.prems e by (cases r) auto
qed

lemma executeCommand_ok:
  assumes "table_ok ls"
  shows "table_ok (snd (executeCommand address command data now ls))"
proof (cases "address = Some 0xFFFF")
  case True
  then show ?thesis
    using executeBroadcast_loop_ok [OF assms, of "map fst ls" command data now 0]
    by (auto simp: executeCommand_def executeBroadcast_def split: prod.splits sum.splits)
next
  case False
  then show ?thesis
    using executeSingle_ok [OF assms, of address command data now]
    by (auto simp: executeCommand_def split: prod.splits)
qed

lemma processPacket_ok:
  assumes "table_ok (lights sim)"
  shows "table_ok (lights (snd (processPacket packet now sim)))"
proof (cases "\<not> enabled sim \<or> processPacket_parse packet = None")
  case True
  then show ?thesis using assms by (auto simp: processPacket_def)
next
  case False
  then obtain a c d where p: "processPacket_parse packet = Some (a, c, d)" and en: "enabled sim"
    by auto
  show ?thesis
    using executeCommand_ok [OF assms, of "Some a" c d now] p en
    by (auto simp: processPacket_def split: prod.splits)
qed

lemma all_off_ok: "light_ok (l\<lparr>light_state := all_off, lastUpdated := x\<rparr>)"
  by (simp add: light_ok_def all_off_def)

lemma fold_apartments_ok:
  "table_ok ls \<Longrightarrow>
   table_ok (fold (\<lambda>apt ls. AList.update (apt_lightswarm_address apt) (apartment_light apt) ls) apartments ls)"
  by (induction apartments arbitrary: ls)
     (simp_all add: table_ok_update light_ok_def apartment_light_def all_off_def)

lemma fold_amenities_ok:
  "table_ok ls \<Longrightarrow>
   table_ok (fold (\<lambda>a ls. AList.update (Some (am_lightswarm_address a)) (amenity_light a) ls) amenities ls)"
  by (induction amenities arbitrary: ls)
     (simp_all add: table_ok_update light_ok_def amenity_light_def all_off_def)

lemma initializeFromDatabase_ok:
  "table_ok (lights sim) \<Longrightarrow> table_ok (lights (initializeFromDatabase apartments amenities sim))"
  by (simp add: initializeFromDatabase_def Let_def fold_apartments_ok fold_amenities_ok)

lemma resetAll_ok: "table_ok (lights (resetAll now sim))"
  by (auto simp: resetAll_def table_ok_def all_off_ok)

lemma reachable_ok: "reachable sim \<Longrightarrow> table_ok (lights sim)"
proof (induction rule: reachable.induct)
  case constructed
  show ?case by (simp add: table_ok_def)
next
  case (after_setEnabled sim e)
  then show ?case by (simp add: setEnabled_def)
next
  case (after_initialize sim apartments amenities)
  then show ?case by (simp add: initializeFromDatabase_ok)
next
  case (after_processPacket sim packet now)
  then show ?case by (simp add: processPacket_ok)
next
  case (after_executeCommand sim address command data now)
  then show ?case by (simp add: executeCommand_ok)
next
  case (after_resetAll sim now)
  show ?case by (rule resetAll_ok)
qed



text \<open>
  Claim C10.  Every simulator operation (\<open>initializeFromDatabase\<close>, \<open>processPacket\<close> and
  \<open>executeCommand\<close> for every opcode, unknown opcodes and broadcast included, and \<open>resetAll\<close>)
  preserves the invariant that for each fixture \<open>level = max (r, g, b)\<close> and
  \<open>on = (level > 0)\<close>; hence every fixture of every reachable simulator table satisfies it.
\<close>

theorem simulator_invariant:
  "(table_ok (lights sim) \<longrightarrow>
        table_ok (lights (initializeFromDatabase apartments amenities sim))
      \<and> table_ok (lights (snd (processPacket packet now sim)))
      \<and> table_ok (snd (executeCommand address command data now (lights sim)))
      \<and> table_ok (snd (executeBroadcast command data now (lights sim)))
      \<and> table_ok (lights (resetAll now sim)))
   \<and> (reachable sim \<longrightarrow> (\<forall>(address, l) \<in> set (lights sim). light_ok l))"
proof (intro conjI impI)
  assume a: "table_ok (lights sim)"
  show "table_ok (lights (initializeFromDatabase apartments amenities sim))"
    by (rule initializeFromDatabase_ok [OF a])
  show "table_ok (lights (snd (processPacket packet now sim)))"
    by (rule processPacket_ok [OF a])
  show "table_ok (snd (executeCommand address command data now (lights sim)))"
    by (rule executeCommand_ok [OF a])
  show "table_ok (snd (executeBroadcast command data now (lights sim)))"
    using executeCommand_ok [OF a, of "Some 0xFFFF" command data now]
    by (simp add: executeCommand_def)
  show "table_ok (lights (resetAll now sim))"
    by (rule resetAll_ok)
next
  assume "reachable sim"
  then have "table_ok (lights sim)" by (rule reachable_ok)
  then show "\<forall>(address, l) \<in> set (lights sim). light_ok l" by (simp add: table_ok_def)
qed


theorem simulator_invariant_witness:
  "reachable (snd (processPacket [0xC0, 0x00, 0x05, 0x2C, 0xFF, 0x80, 0x40, 0x16, 0xC0] ''t1''
                     example_simulator))
   \<and> map (\<lambda>(a, l). (a, light_state l))
        (lights (snd (processPacket [0xC0, 0x00, 0x05, 0x2C, 0xFF, 0x80, 0x40, 0x16, 0xC0] ''t1''
                        example_simulator)))
       = [(Some 5, \<lparr>st_on = True, st_level = 255, st_r = 255, st_g = 128, st_b = 64\<rparr>)]
   \<and> table_ok (lights (snd (processPacket
          [0xC0, 0x00, 0x05, 0x2C, 0xFF, 0x80, 0x40, 0x16, 0xC0] ''t1'' example_simulator)))"
proof -
  let ?S = "snd (processPacket [0xC0, 0x00, 0x05, 0x2C, 0xFF, 0x80, 0x40, 0x16, 0xC0] ''t1''
                   example_simulator)"
  have r: "reachable ?S"
    unfolding example_simulator_def by (intro reachable.intros)
  have e: "map (\<lambda>(a, l). (a, light_state l)) (lights ?S)
       = [(Some 5, \<lparr>st_on = True, st_level = 255, st_r = 255, st_g = 128, st_b = 64\<rparr>)]"
    by code_simp
  from simulator_invariant [THEN conjunct2, THEN mp, OF r]
  have "table_ok (lights ?S)" by (simp add: table_ok_def)
  with r e show ?thesis by blast
qed

text \<open>
  Claim C8.  The claim says that for every wire packet the transport emits, the simulator's
  parser recovers the same (address, opcode, payload) as the decoder of sections 4.1 and 4.2
  (SLIP unescaping, then dropping the checksum), so that the simulator's table mirrors the
  decoded frames.  \<open>processPacket\<close> does not undo SLIP escaping.  The LEVEL packet for address
  5 and level 192 (0xC0) is \<open>C0 00 05 22 DB DC E7 C0\<close>; the decoder recovers the payload
  \<open>C0\<close>, the simulator parses the payload \<open>DB DC\<close> and records level 219 for the fixture.
\<close>

theorem simulator_parser_escaped_payload:
  "packetLevel 5 192 = Inr [0xC0, 0x00, 0x05, 0x22, 0xDB, 0xDC, 0xE7, 0xC0]
   \<and> spec_decode_frame [0xC0, 0x00, 0x05, 0x22, 0xDB, 0xDC, 0xE7, 0xC0] = Some (5, 0x22, [0xC0])
   \<and> processPacket_parse [0xC0, 0x00, 0x05, 0x22, 0xDB, 0xDC, 0xE7, 0xC0]
         = Some (5, 0x22, [0xDB, 0xDC])
   \<and> map (\<lambda>(a, l). (a, light_state l))
        (lights (snd (processPacket [0xC0, 0x00, 0x05, 0x22, 0xDB, 0xDC, 0xE7, 0xC0] ''t1''
                        example_simulator)))
       = [(Some 5, \<lparr>st_on = True, st_level = 219, st_r = 219, st_g = 219, st_b = 219\<rparr>)]"
proof -
  have "packetLevel 5 192 = Inr [0xC0, 0x00, 0x05, 0x22, 0xDB, 0xDC, 0xE7, 0xC0]"
    by (simp add: packetLevel_def buildLevelCommand_def addressToBytes_def Math_round_def
        buildPacket_def calculateChecksum_def encode_def Buffer_from_def)
  moreover have "spec_decode_frame [0xC0, 0x00, 0x05, 0x22, 0xDB, 0xDC, 0xE7, 0xC0]
      = Some (5, 0x22, [0xC0])"
    by (simp add: spec_decode_frame_def decode_def)
  moreover have "processPacket_parse [0xC0, 0x00, 0x05, 0x22, 0xDB, 0xDC, 0xE7, 0xC0]
      = Some (5, 0x22, [0xDB, 0xDC])"
    by (simp add: processPacket_parse_def)
  moreover have "map (\<lambda>(a, l). (a, light_state l))
        (lights (snd (processPacket [0xC0, 0x00, 0x05, 0x22, 0xDB, 0xDC, 0xE7, 0xC0] ''t1''
                        example_simulator)))
       = [(Some 5, \<lparr>st_on = True, st_level = 219, st_r = 219, st_g = 219, st_b = 219\<rparr>)]"
    by code_simp
  ultimately show ?thesis by blast
qed


subsection \<open>Resolver\<close>




















text \<open>
  Claim C6.  If an apartment has no fixture addresses (no \<open>apartment_lights\<close> rows and no
  primary \<open>lightswarm_address\<close>), lighting it fails with the no-addresses error; no packet is
  sent to the transport and the persisted state is unchanged: the transport and the database
  are returned as they were.
\<close>

theorem lightApartment_no_addresses:
  assumes "apartmentLights_getByApartment db (apt_id apartment) = []"
    and "apt_lightswarm_address apartment = None"
  shows "lightApartment w db apartment state options
           = (Rejected (No_light_addresses (apt_id apartment)), w, db)"
proof -
  have "getApartmentAddresses db (apt_id apartment) (apt_lightswarm_address apartment) = []"
    using assms by (simp add: getApartmentAddresses_def)
  then show ?thesis by (simp add: lightApartment_def Let_def split_beta)
qed


theorem lightApartment_no_addresses_witness:
  "apartmentLights_getByApartment example_db (apt_id apartment_A09) = []
   \<and> apt_lightswarm_address apartment_A09 = None
   \<and> lightApartment idle_io example_db apartment_A09 ''SOLD'' default_options
       = (Rejected (No_light_addresses ''A-09''), idle_io, example_db)"
proof -
  have a: "apartmentLights_getByApartment example_db (apt_id apartment_A09) = []"
    by (simp add: apartmentLights_getByApartment_def example_db_def apartment_A09_def)
  have b: "apt_lightswarm_address apartment_A09 = None" by (simp add: apartment_A09_def)
  have c: "apt_id apartment_A09 = ''A-09''" by (simp add: apartment_A09_def)
  from lightApartment_no_addresses [OF a b, of idle_io "''SOLD''" default_options] a b c
  show ?thesis by simp
qed


subsection \<open>Session login\<close>

lemma apartments_getByFloor_null: "apartments_getByFloor db None f = []"
  by (simp add: apartments_getByFloor_def sql_eq_def)

lemma amenities_getByFloor_null: "amenities_getByFloor db None f = []"
  by (simp add: amenities_getByFloor_def sql_eq_def split: option.splits)

lemma login_floors_no_send:
  "\<exists>w'. login_floors db d t mn floors w = (Resolved (), w')
     \<and> filter is_Enqueued (io_events w') = filter is_Enqueued (io_events w)
     \<and> io_write_errors w' = io_write_errors w"
proof (induction floors arbitrary: w)
  case Nil
  show ?case by simp
next
  case (Cons f floors)
  let ?w = "if f > mn then delay d w else w"
  from Cons [of ?w] obtain w' where
    "login_floors db d t mn floors ?w = (Resolved (), w')"
    "filter is_Enqueued (io_events w') = filter is_Enqueued (io_events ?w)"
    "io_write_errors w' = io_write_errors ?w"
    by blast
  then show ?case
    by (simp add: apartments_getByFloor_null amenities_getByFloor_null delay_def)
qed


text \<open>
  Claim C7.  The claim says that on login a FADE-to-0 packet is enqueued for every fixture of
  every floor, from the highest floor down.  The route asks for the fixtures of a floor with
  \<open>getByFloor(null, floor)\<close>, whose query compares \<open>tower_id\<close> with NULL and so selects no row:
  for every installation, login enqueues no packet at all.  On the two-floor installation the
  route reports success after the inter-floor delay alone, with the animation stopped;
  \<open>getByFloorOnly\<close> would have found the fixture of floor 10.
\<close>

theorem login_enqueues_no_packet:
  "filter is_Enqueued (io_events (app_io (snd (login agentId a))))
     = filter is_Enqueued (io_events (app_io a))
   \<and> fst (login (Some ''agent-1'') example_app) = Resolved ''Login successful, ambient animation stopped''
   \<and> io_events (app_io (snd (login (Some ''agent-1'') example_app))) = [Delay 100]
   \<and> map_option eng_running (app_engine (snd (login (Some ''agent-1'') example_app))) = Some False
   \<and> getFloorRange example_db = (Some 9, Some 10)
   \<and> apartments_getByFloorOnly example_db (Some 10) = [apartment_A10]
   \<and> apartments_getByFloor example_db None (Some 10) = []"
proof -
  obtain mn floors where mf: "(case getFloorRange (sessionLog_add ''login'' agentId (app_db a)) of
               (Some mn, Some mx) \<Rightarrow> (mn, rev [mn..mx])
             | _ \<Rightarrow> (0, [])) = (mn, floors)"
    by (cases "(case getFloorRange (sessionLog_add ''login'' agentId (app_db a)) of
               (Some mn, Some mx) \<Rightarrow> (mn, rev [mn..mx])
             | _ \<Rightarrow> (0, []))")
  let ?db = "sessionLog_add ''login'' agentId (app_db a)"
  obtain w' where l: "login_floors ?db (setting ?db ''login_fade_delay_ms'' 100)
        (setting ?db ''default_fade_time_ms'' 500) mn floors (app_io a) = (Resolved (), w')"
     and e: "filter is_Enqueued (io_events w') = filter is_Enqueued (io_events (app_io a))"
    using login_floors_no_send by blast
  have g: "filter is_Enqueued (io_events (app_io (snd (login agentId a))))
     = filter is_Enqueued (io_events (app_io a))"
    by (simp add: login_def Let_def mf l e)
  have c1: "fst (login (Some ''agent-1'') example_app) = Resolved ''Login successful, ambient animation stopped''"
    "io_events (app_io (snd (login (Some ''agent-1'') example_app))) = [Delay 100]"
    "map_option eng_running (app_engine (snd (login (Some ''agent-1'') example_app))) = Some False"
    by code_simp+
  have c2: "getFloorRange example_db = (Some 9, Some 10)" by code_simp
  have c3: "apartments_getByFloorOnly example_db (Some 10) = [apartment_A10]" by code_simp
  have c4: "apartments_getByFloor example_db None (Some 10) = []"
    by (rule apartments_getByFloor_null)
  show ?thesis using g c1 c2 c3 c4 by simp
qed


subsection \<open>Serial transport queue\<close>






















end
